theory Spec2Isabelle
  imports Complex_Main "HOL-Library.Char_ord" "HOL-Library.List_Lexorder"
    "HOL-Library.Code_Target_Numeral"
begin

section \<open>Effects of the page handlers\<close>

text \<open>
  The pages are React components. A handler reads the component state, may show a toast
  and may post a request to the backend. A handler is modelled as a function from the
  state to the state after the handler has finished, paired with the events it emitted in
  order. The backend is not part of the pages: it is a parameter that answers a request
  either with a failure (carrying the optional \<^verbatim>\<open>detail\<close> of the error response) or
  with the response data. Handlers run one at a time, each on the state that the previous
  one left.
\<close>

datatype 'q event =
    Toast_error string
  | Toast_success string
  | Post string 'q

type_synonym ('q, 'r) backend = "'q \<Rightarrow> string option + 'r"

text \<open>\<^verbatim>\<open>error.response?.data?.detail || fallback\<close>: a missing or empty detail is falsy.\<close>

definition detail_or :: "string option \<Rightarrow> string \<Rightarrow> string" where
  "detail_or detail fallback =
     (case detail of None \<Rightarrow> fallback | Some d \<Rightarrow> if d = [] then fallback else d)"

fun is_Post :: "'q event \<Rightarrow> bool" where
  "is_Post (Post url q) = True"
| "is_Post _ = False"

record asset =
  symbol :: string
  name :: string

record request =
  symbols :: "string list"
  asset_type :: string
  start_date :: string
  end_date :: string

section \<open>Optimizer page (pages/Optimizer.js)\<close>

record optimize_request = request +
  risk_tolerance :: real
  rebalance_freq :: string

record 'r optimizer =
  assetType :: string
  selectedAssets :: "asset list"
  riskTolerance :: real
  rebalanceFreq :: string
  startDate :: string
  endDate :: string
  optimizing :: bool
  results :: "'r option"

text \<open>The initial state of the component; \<open>today\<close> is the date the page was opened.\<close>

definition optimizer_init :: "string \<Rightarrow> 'r optimizer" where
  "optimizer_init today =
     \<lparr>assetType = ''stock'', selectedAssets = [], riskTolerance = 1 / 2,
      rebalanceFreq = ''daily'', startDate = ''2022-01-01'', endDate = today,
      optimizing = False, results = None\<rparr>"

definition addAsset :: "asset \<Rightarrow> 'r optimizer \<Rightarrow> 'r optimizer \<times> optimize_request event list" where
  "addAsset a st =
     (if find (\<lambda>b. symbol b = symbol a) (selectedAssets st) = None
      then (st\<lparr>selectedAssets := selectedAssets st @ [a]\<rparr>,
            [Toast_success (''Added '' @ symbol a)])
      else (st, []))"

definition removeAsset :: "string \<Rightarrow> 'r optimizer \<Rightarrow> 'r optimizer" where
  "removeAsset s st = st\<lparr>selectedAssets := filter (\<lambda>a. symbol a \<noteq> s) (selectedAssets st)\<rparr>"

definition optimize_body :: "'r optimizer \<Rightarrow> optimize_request" where
  "optimize_body st =
     \<lparr>symbols = map symbol (selectedAssets st), asset_type = assetType st,
      start_date = startDate st, end_date = endDate st,
      risk_tolerance = riskTolerance st, rebalance_freq = rebalanceFreq st\<rparr>"

definition handleOptimize ::
  "(optimize_request, 'r) backend \<Rightarrow> 'r optimizer \<Rightarrow> 'r optimizer \<times> optimize_request event list" where
  "handleOptimize backend st =
     (if length (selectedAssets st) < 2
      then (st, [Toast_error ''Select at least 2 assets''])
      else
        (case backend (optimize_body st) of
           Inr data \<Rightarrow>
             (st\<lparr>results := Some data, optimizing := False\<rparr>,
              [Post ''/optimize'' (optimize_body st), Toast_success ''Optimization complete!''])
         | Inl detail \<Rightarrow>
             (st\<lparr>optimizing := False\<rparr>,
              [Post ''/optimize'' (optimize_body st),
               Toast_error (detail_or detail ''Optimization failed'')])))"

text \<open>What the user can do on the page, and a session as a list of such actions.\<close>

datatype optimizer_action =
    AddAsset asset
  | RemoveAsset string
  | SetAssetType string
  | SetRiskTolerance real
  | SetRebalanceFreq string
  | SetStartDate string
  | SetEndDate string
  | Optimize

fun optimizer_step ::
  "(optimize_request, 'r) backend \<Rightarrow> optimizer_action \<Rightarrow> 'r optimizer
     \<Rightarrow> 'r optimizer \<times> optimize_request event list" where
  "optimizer_step backend (AddAsset a) st = addAsset a st"
| "optimizer_step backend (RemoveAsset s) st = (removeAsset s st, [])"
| "optimizer_step backend (SetAssetType t) st = (st\<lparr>assetType := t\<rparr>, [])"
| "optimizer_step backend (SetRiskTolerance r) st = (st\<lparr>riskTolerance := r\<rparr>, [])"
| "optimizer_step backend (SetRebalanceFreq f) st = (st\<lparr>rebalanceFreq := f\<rparr>, [])"
| "optimizer_step backend (SetStartDate d) st = (st\<lparr>startDate := d\<rparr>, [])"
| "optimizer_step backend (SetEndDate d) st = (st\<lparr>endDate := d\<rparr>, [])"
| "optimizer_step backend Optimize st = handleOptimize backend st"

fun optimizer_run ::
  "(optimize_request, 'r) backend \<Rightarrow> optimizer_action list \<Rightarrow> 'r optimizer
     \<Rightarrow> 'r optimizer \<times> optimize_request event list" where
  "optimizer_run backend [] st = (st, [])"
| "optimizer_run backend (a # as) st =
     (case optimizer_step backend a st of
        (st', evs) \<Rightarrow> (case optimizer_run backend as st' of (st'', evs') \<Rightarrow> (st'', evs @ evs')))"

section \<open>Model training page (pages/ModelTraining.js)\<close>

text \<open>\<^verbatim>\<open>Array.prototype.join\<close> with a separator.\<close>

fun join :: "string \<Rightarrow> string list \<Rightarrow> string" where
  "join sep [] = []"
| "join sep [x] = x"
| "join sep (x # y # ys) = x @ sep @ join sep (y # ys)"

text \<open>The answer of \<^verbatim>\<open>GET /models/status/{task_id}\<close>, as far as the page reads it.\<close>

record 'r status_data =
  status_of :: string
  results_of :: "'r option"
  error_of :: "string option"

record 'r training =
  mt_assetType :: string
  mt_symbols :: string
  mt_selectedAssets :: "asset list"
  mt_searchQuery :: string
  mt_searchResults :: "asset list"
  mt_startDate :: string
  mt_endDate :: string
  mt_training :: bool
  mt_taskId :: "string option"
  mt_status :: "'r status_data option"
  mt_results :: "'r option"

definition training_init :: "string \<Rightarrow> 'r training" where
  "training_init today =
     \<lparr>mt_assetType = ''stock'', mt_symbols = ''AAPL,MSFT,GOOGL'',
      mt_selectedAssets =
        [\<lparr>symbol = ''AAPL'', name = ''Apple Inc.''\<rparr>,
         \<lparr>symbol = ''MSFT'', name = ''Microsoft Corporation''\<rparr>,
         \<lparr>symbol = ''GOOGL'', name = ''Alphabet Inc.''\<rparr>],
      mt_searchQuery = [], mt_searchResults = [],
      mt_startDate = ''2020-01-01'', mt_endDate = today,
      mt_training = False, mt_taskId = None, mt_status = None, mt_results = None\<rparr>"

definition mt_addAsset :: "asset \<Rightarrow> 'r training \<Rightarrow> 'r training \<times> request event list" where
  "mt_addAsset a st =
     (if find (\<lambda>b. symbol b = symbol a) (mt_selectedAssets st) = None
      then
        (let newAssets = mt_selectedAssets st @ [a]
         in (st\<lparr>mt_selectedAssets := newAssets,
                 mt_symbols := join '','' (map symbol newAssets),
                 mt_searchQuery := [], mt_searchResults := []\<rparr>,
             [Toast_success (''Added '' @ symbol a)]))
      else (st\<lparr>mt_searchQuery := [], mt_searchResults := []\<rparr>, []))"

definition mt_removeAsset :: "string \<Rightarrow> 'r training \<Rightarrow> 'r training" where
  "mt_removeAsset s st =
     (let newAssets = filter (\<lambda>a. symbol a \<noteq> s) (mt_selectedAssets st)
      in st\<lparr>mt_selectedAssets := newAssets, mt_symbols := join '','' (map symbol newAssets)\<rparr>)"

definition train_body :: "'r training \<Rightarrow> request" where
  "train_body st =
     \<lparr>symbols = map symbol (mt_selectedAssets st), asset_type = mt_assetType st,
      start_date = mt_startDate st, end_date = mt_endDate st\<rparr>"

text \<open>
  The backend answers \<^verbatim>\<open>POST /models/train\<close> with a task id. After a successful start
  the page polls the status every two seconds; each answered poll is the action
  \<open>PollStatus\<close> below.
\<close>

definition handleStartTraining ::
  "(request, string) backend \<Rightarrow> 'r training \<Rightarrow> 'r training \<times> request event list" where
  "handleStartTraining backend st =
     (if length (mt_selectedAssets st) = 0
      then (st, [Toast_error ''Please select at least one asset''])
      else
        (case backend (train_body st) of
           Inr newTaskId \<Rightarrow>
             (st\<lparr>mt_training := True, mt_results := None, mt_taskId := Some newTaskId\<rparr>,
              [Post ''/models/train'' (train_body st), Toast_success ''Training started!''])
         | Inl detail \<Rightarrow>
             (st\<lparr>mt_training := False, mt_results := None\<rparr>,
              [Post ''/models/train'' (train_body st),
               Toast_error (detail_or detail ''Failed to start training'')])))"

definition pollTrainingStatus :: "'r status_data \<Rightarrow> 'r training \<Rightarrow> 'r training \<times> request event list" where
  "pollTrainingStatus data st =
     (if status_of data = ''completed''
      then (st\<lparr>mt_status := Some data, mt_results := results_of data, mt_training := False\<rparr>,
            [Toast_success ''Training completed!''])
      else if status_of data = ''failed''
      then (st\<lparr>mt_status := Some data, mt_training := False\<rparr>,
            [Toast_error (detail_or (error_of data) ''Training failed'')])
      else (st\<lparr>mt_status := Some data\<rparr>, []))"

text \<open>
  What the user and the backend can do on the page. The two asset type buttons also empty
  the selection; an emptied search box empties the search results, and the answer to a
  search is the action \<open>MtSetSearchResults\<close>.
\<close>

datatype 'r training_action =
    MtAddAsset asset
  | MtRemoveAsset string
  | MtSetAssetType string
  | MtSetSearchQuery string
  | MtSetSearchResults "asset list"
  | MtSetStartDate string
  | MtSetEndDate string
  | StartTraining
  | PollStatus "'r status_data"

fun training_step ::
  "(request, string) backend \<Rightarrow> 'r training_action \<Rightarrow> 'r training
     \<Rightarrow> 'r training \<times> request event list" where
  "training_step backend (MtAddAsset a) st = mt_addAsset a st"
| "training_step backend (MtRemoveAsset s) st = (mt_removeAsset s st, [])"
| "training_step backend (MtSetAssetType t) st =
     (st\<lparr>mt_assetType := t, mt_selectedAssets := [], mt_symbols := []\<rparr>, [])"
| "training_step backend (MtSetSearchQuery q) st =
     (st\<lparr>mt_searchQuery := q,
         mt_searchResults := (if q = [] then [] else mt_searchResults st)\<rparr>, [])"
| "training_step backend (MtSetSearchResults rs) st = (st\<lparr>mt_searchResults := rs\<rparr>, [])"
| "training_step backend (MtSetStartDate d) st = (st\<lparr>mt_startDate := d\<rparr>, [])"
| "training_step backend (MtSetEndDate d) st = (st\<lparr>mt_endDate := d\<rparr>, [])"
| "training_step backend StartTraining st = handleStartTraining backend st"
| "training_step backend (PollStatus data) st = pollTrainingStatus data st"

fun training_run ::
  "(request, string) backend \<Rightarrow> 'r training_action list \<Rightarrow> 'r training
     \<Rightarrow> 'r training \<times> request event list" where
  "training_run backend [] st = (st, [])"
| "training_run backend (a # as) st =
     (case training_step backend a st of
        (st', evs) \<Rightarrow> (case training_run backend as st' of (st'', evs') \<Rightarrow> (st'', evs @ evs')))"

section \<open>JavaScript numbers and strings used by the pages\<close>

text \<open>
  A JavaScript number is an IEEE 754 binary64 value. It is modelled as the real number it
  denotes, or one of the three special values. The finite values are the reals
  \<open>m * 2 ^ e\<close> with \<open>\<bar>m\<bar> < 2 ^ 53\<close> and \<open>- 1074 \<le> e \<le> 971\<close>; the two zeros are not
  told apart (they differ in no operation used here).
\<close>

datatype number = Num real | PosInfinity | NegInfinity | NaN

fun js_neg :: "number \<Rightarrow> number" where
  "js_neg (Num a) = Num (- a)"
| "js_neg PosInfinity = NegInfinity"
| "js_neg NegInfinity = PosInfinity"
| "js_neg NaN = NaN"

definition pow2 :: "int \<Rightarrow> real" where
  "pow2 e = (if 0 \<le> e then 2 ^ nat e else 1 / 2 ^ nat (- e))"

text \<open>The nearest integer, the even one of two equally near.\<close>

definition round_even :: "real \<Rightarrow> int" where
  "round_even y =
     (let f = \<lfloor>y\<rfloor>; r = y - of_int f
      in if r < 1 / 2 then f else if 1 / 2 < r then f + 1 else if even f then f else f + 1)"

text \<open>
  The binary exponent of a positive real \<open>x\<close> in the range of the normal numbers. For
  \<open>1 \<le> x\<close> it is the number of times \<open>x\<close> can be halved before it is below 2, and
  for \<open>x < 1\<close> the negated number of times \<open>x\<close> must be doubled to reach 1. The
  second argument counts the steps done and the third is \<open>x\<close> after them; the first
  bounds the search to the exponents of binary64.
\<close>

fun exponent_up :: "nat \<Rightarrow> nat \<Rightarrow> real \<Rightarrow> nat" where
  "exponent_up fuel k y =
     (if fuel = 0 \<or> y < 2 then k else exponent_up (fuel - 1) (k + 1) (y / 2))"

fun exponent_down :: "nat \<Rightarrow> nat \<Rightarrow> real \<Rightarrow> nat" where
  "exponent_down fuel k y =
     (if fuel = 0 \<or> 1 \<le> y then k else exponent_down (fuel - 1) (k + 1) (2 * y))"

declare exponent_up.simps [simp del]

declare exponent_down.simps [simp del]

definition exponent :: "real \<Rightarrow> int" where
  "exponent x =
     (if 1 \<le> x then int (exponent_up 1023 0 x) else - int (exponent_down 1021 1 (2 * x)))"

text \<open>
  The binary64 value nearest to a positive real, the one with an even significand of two
  equally near: the real is rounded to a multiple of \<open>2 ^ e\<close>, where \<open>e\<close> is its
  exponent less 52, and \<open>- 1074\<close> below the normal numbers. A result of \<open>2 ^ 1024\<close> or
  more is an infinity.
\<close>

definition round_pos :: "real \<Rightarrow> number" where
  "round_pos x =
     (if 2 ^ 1024 \<le> x then PosInfinity
      else
        (let e = (if x < pow2 (- 1022) then - 1074 else exponent x - 52);
             v = of_int (round_even (x / pow2 e)) * pow2 e
         in if 2 ^ 1024 \<le> v then PosInfinity else Num v))"

text \<open>The Number value for a real: round to nearest, ties to even.\<close>

definition number_value :: "real \<Rightarrow> number" where
  "number_value x =
     (if x = 0 then Num 0
      else if 0 < x then round_pos x
      else js_neg (round_pos (- x)))"

text \<open>\<^verbatim>\<open>a + b\<close>: the exact sum of two finite numbers is rounded.\<close>

fun js_add :: "number \<Rightarrow> number \<Rightarrow> number" where
  "js_add NaN _ = NaN"
| "js_add _ NaN = NaN"
| "js_add (Num a) (Num b) = number_value (a + b)"
| "js_add PosInfinity NegInfinity = NaN"
| "js_add NegInfinity PosInfinity = NaN"
| "js_add PosInfinity _ = PosInfinity"
| "js_add _ PosInfinity = PosInfinity"
| "js_add NegInfinity _ = NegInfinity"
| "js_add _ NegInfinity = NegInfinity"

definition js_sub :: "number \<Rightarrow> number \<Rightarrow> number" where
  "js_sub a b = js_add a (js_neg b)"



fun js_abs :: "number \<Rightarrow> number" where
  "js_abs (Num a) = Num \<bar>a\<bar>"
| "js_abs PosInfinity = PosInfinity"
| "js_abs NegInfinity = PosInfinity"
| "js_abs NaN = NaN"

text \<open>\<^verbatim>\<open>a > b\<close>: every comparison with \<^verbatim>\<open>NaN\<close> is false.\<close>

fun js_gt :: "number \<Rightarrow> number \<Rightarrow> bool" where
  "js_gt NaN _ = False"
| "js_gt _ NaN = False"
| "js_gt (Num a) (Num b) = (a > b)"
| "js_gt PosInfinity PosInfinity = False"
| "js_gt PosInfinity _ = True"
| "js_gt _ PosInfinity = False"
| "js_gt NegInfinity _ = False"
| "js_gt _ NegInfinity = True"

definition isNaN :: "number \<Rightarrow> bool" where
  "isNaN w = (w = NaN)"

text \<open>
  White space and line terminators among the characters a \<open>string\<close> can hold:
  tab, line feed, vertical tab, form feed, carriage return, space, no-break space.
\<close>

definition is_space :: "char \<Rightarrow> bool" where
  "is_space c = (of_char c \<in> {9, 10, 11, 12, 13, 32, 160 :: nat})"

definition is_digit :: "char \<Rightarrow> bool" where
  "is_digit c = (48 \<le> (of_char c :: nat) \<and> (of_char c :: nat) \<le> 57)"

text \<open>\<^verbatim>\<open>String.prototype.trim\<close>.\<close>

definition trim :: "string \<Rightarrow> string" where
  "trim s = rev (dropWhile is_space (rev (dropWhile is_space s)))"

text \<open>
  \<^verbatim>\<open>String.prototype.split\<close> with a one-character separator: the pieces between the
  separators, so the empty string gives one empty piece.
\<close>

fun js_split_acc :: "char \<Rightarrow> string \<Rightarrow> string \<Rightarrow> string list" where
  "js_split_acc sep acc [] = [rev acc]"
| "js_split_acc sep acc (c # cs) =
     (if c = sep then rev acc # js_split_acc sep [] cs else js_split_acc sep (c # acc) cs)"

definition js_split :: "char \<Rightarrow> string \<Rightarrow> string list" where
  "js_split sep s = js_split_acc sep [] s"

text \<open>The value of a run of decimal digits.\<close>

definition digits_value :: "string \<Rightarrow> nat" where
  "digits_value ds = foldl (\<lambda>n c. 10 * n + (of_char c - 48)) 0 ds"

text \<open>
  The exponent part of a decimal literal: \<^verbatim>\<open>e\<close> or \<^verbatim>\<open>E\<close>, an optional sign and at
  least one digit; anything else is no exponent. The result is the sign and the magnitude.
\<close>

definition exponent_part :: "string \<Rightarrow> bool \<times> nat" where
  "exponent_part r =
     (case r of
        [] \<Rightarrow> (False, 0)
      | c # r1 \<Rightarrow>
          if c = CHR ''e'' \<or> c = CHR ''E'' then
            (case r1 of
               [] \<Rightarrow> (False, 0)
             | d # r2 \<Rightarrow>
                 if d = CHR ''+'' \<or> d = CHR ''-'' then
                   (if takeWhile is_digit r2 = [] then (False, 0)
                    else (d = CHR ''-'', digits_value (takeWhile is_digit r2)))
                 else if takeWhile is_digit r1 = [] then (False, 0)
                 else (False, digits_value (takeWhile is_digit r1)))
          else (False, 0))"

definition scale10 :: "real \<Rightarrow> bool \<times> nat \<Rightarrow> real" where
  "scale10 v e = (if fst e then v / 10 ^ snd e else v * 10 ^ snd e)"

text \<open>
  An unsigned decimal literal at the start of a string: \<^verbatim>\<open>Infinity\<close>, digits with an
  optional fraction and exponent, or a dot followed by digits; the longest such prefix
  counts and what follows it is ignored. No such prefix gives \<^verbatim>\<open>NaN\<close>. The result is
  the Number value for the decimal value of the literal.
\<close>

definition unsigned_literal :: "string \<Rightarrow> number" where
  "unsigned_literal s =
     (if take 8 s = ''Infinity'' then PosInfinity
      else
        (let ip = takeWhile is_digit s; r = dropWhile is_digit s
         in case r of
              c # r1 \<Rightarrow>
                if c = CHR ''.'' then
                  (let fp = takeWhile is_digit r1; r2 = dropWhile is_digit r1
                   in if ip = [] \<and> fp = [] then NaN
                      else number_value (scale10
                             (real (digits_value ip) + real (digits_value fp) / 10 ^ length fp)
                             (exponent_part r2)))
                else if ip = [] then NaN
                else number_value (scale10 (real (digits_value ip)) (exponent_part r))
            | [] \<Rightarrow> if ip = [] then NaN else number_value (real (digits_value ip))))"

text \<open>\<^verbatim>\<open>parseFloat\<close>: leading white space is skipped, then an optional sign.\<close>

definition parseFloat :: "string \<Rightarrow> number" where
  "parseFloat s =
     (case dropWhile is_space s of
        [] \<Rightarrow> NaN
      | c # r \<Rightarrow>
          if c = CHR ''-'' then js_neg (unsigned_literal r)
          else if c = CHR ''+'' then unsigned_literal r
          else unsigned_literal (c # r))"

section \<open>Backtesting page (the Backtesting component)\<close>

text \<open>
  The body of a backtest request. Its \<^verbatim>\<open>weights\<close> is a plain JavaScript object with
  numbers as values: a map from property keys to numbers.
\<close>

record backtest_request = request +
  weights :: "string \<rightharpoonup> number"

record 'r backtesting =
  bt_assetType :: string
  bt_symbols :: string
  bt_weights :: string
  bt_startDate :: string
  bt_endDate :: string
  bt_running :: bool
  bt_results :: "'r option"

definition backtesting_init :: "string \<Rightarrow> 'r backtesting" where
  "backtesting_init today =
     \<lparr>bt_assetType = ''stock'', bt_symbols = ''AAPL,MSFT,GOOGL'',
      bt_weights = ''0.33,0.33,0.34'', bt_startDate = ''2022-01-01'', bt_endDate = today,
      bt_running = False, bt_results = None\<rparr>"

definition symbolList :: "'r backtesting \<Rightarrow> string list" where
  "symbolList st = filter (\<lambda>s. s \<noteq> []) (map trim (js_split CHR '','' (bt_symbols st)))"

definition weightList :: "'r backtesting \<Rightarrow> number list" where
  "weightList st =
     filter (\<lambda>w. \<not> isNaN w) (map (\<lambda>w. parseFloat (trim w)) (js_split CHR '','' (bt_weights st)))"

definition weightSum :: "'r backtesting \<Rightarrow> number" where
  "weightSum st = foldl js_add (Num 0) (weightList st)"

text \<open>
  \<^verbatim>\<open>weightsObj[symbol] = weightList[idx]\<close> for every index of the symbol list, on an
  object that starts empty: a later entry for a symbol that is already a key replaces its
  value. The key \<^verbatim>\<open>__proto__\<close> is the accessor inherited from the prototype of the
  object, and assigning a number to it stores nothing.
\<close>

definition weightsObj :: "'r backtesting \<Rightarrow> (string \<rightharpoonup> number)" where
  "weightsObj st =
     fold (\<lambda>idx obj.
             if symbolList st ! idx = ''__proto__'' then obj
             else obj(symbolList st ! idx \<mapsto> weightList st ! idx))
       [0 ..< length (symbolList st)] Map.empty"

definition backtest_body :: "'r backtesting \<Rightarrow> backtest_request" where
  "backtest_body st =
     \<lparr>symbols = symbolList st, asset_type = bt_assetType st,
      start_date = bt_startDate st, end_date = bt_endDate st,
      weights = weightsObj st\<rparr>"

definition handleRunBacktest ::
  "(backtest_request, 'r) backend \<Rightarrow> 'r backtesting
     \<Rightarrow> 'r backtesting \<times> backtest_request event list" where
  "handleRunBacktest backend st =
     (if length (symbolList st) = 0
      then (st, [Toast_error ''Enter at least one symbol''])
      else if length (symbolList st) \<noteq> length (weightList st)
      then (st, [Toast_error ''Number of symbols must match number of weights''])
      else if js_gt (js_abs (js_sub (weightSum st) (Num 1))) (number_value (1 / 100))
      then (st, [Toast_error ''Weights must sum to 1.0''])
      else
        (case backend (backtest_body st) of
           Inr data \<Rightarrow>
             (st\<lparr>bt_results := Some data, bt_running := False\<rparr>,
              [Post ''/backtest'' (backtest_body st), Toast_success ''Backtest completed!''])
         | Inl detail \<Rightarrow>
             (st\<lparr>bt_running := False\<rparr>,
              [Post ''/backtest'' (backtest_body st),
               Toast_error (detail_or detail ''Backtest failed'')])))"

section \<open>The engine behind the pages\<close>

text \<open>
  The pages call a backend whose code is not in the repository. Where a property is about
  what that engine computes, the computation is modelled from its specification; each such
  definition says so.
\<close>

datatype engine_error =
    InvalidRequest
  | InsufficientData
  | OptimizationFailure string
  | TrainingFailure string
  | InsufficientHoldings

subsection \<open>Model training pipeline\<close>

record metrics =
  test_r2 :: real
  test_mse :: real
  test_mae :: real

type_synonym model_result = "string \<times> metrics"

datatype task_state =
    Queued
  | Running nat string
  | Completed "model_result list" "model_result option"
  | Failed engine_error

text \<open>
  Modelled from the spec: the choice of \<^verbatim>\<open>best_model\<close> by the training pipeline, which
  is backend code missing from the repository. One result is preferred to another when
  its test R2 is higher; at equal R2, when its test MSE is lower; at equal MSE, when its
  model name comes first in lexicographic order.
\<close>

definition preferred :: "model_result \<Rightarrow> model_result \<Rightarrow> bool" where
  "preferred a b =
     (test_r2 (snd a) > test_r2 (snd b)
      \<or> (test_r2 (snd a) = test_r2 (snd b)
          \<and> (test_mse (snd a) < test_mse (snd b)
              \<or> (test_mse (snd a) = test_mse (snd b) \<and> fst a < fst b))))"

text \<open>
  Modelled from the spec: the pipeline goes through the results in panel order and keeps
  the preferred one (backend code missing from the repository).
\<close>

fun best_model :: "model_result list \<Rightarrow> model_result option" where
  "best_model [] = None"
| "best_model (m # ms) = Some (foldl (\<lambda>best x. if preferred x best then x else best) m ms)"

text \<open>
  Modelled from the spec: the panel is a list of named trainers run on the same data; a
  trainer either raises (\<open>Inl\<close> with its message) or gives the metrics of its model.
  The first trainer that raises fails the task, the error names the model, and the results
  of the models trained before it are dropped (backend code missing from the repository).
\<close>

fun train_panel :: "(string \<times> ('a \<Rightarrow> string + metrics)) list \<Rightarrow> 'a \<Rightarrow> engine_error + model_result list" where
  "train_panel [] d = Inr []"
| "train_panel ((model, trainer) # panel) d =
     (case trainer d of
        Inl msg \<Rightarrow> Inl (TrainingFailure (model @ '': '' @ msg))
      | Inr m \<Rightarrow>
          (case train_panel panel d of
             Inl e \<Rightarrow> Inl e
           | Inr rs \<Rightarrow> Inr ((model, m) # rs)))"

text \<open>
  Modelled from the spec: the terminal state of a training task, \<^verbatim>\<open>completed\<close> with
  the results and the best model, or \<^verbatim>\<open>failed\<close> (backend code missing from the
  repository).
\<close>

definition train_task :: "(string \<times> ('a \<Rightarrow> string + metrics)) list \<Rightarrow> 'a \<Rightarrow> task_state" where
  "train_task panel d =
     (case train_panel panel d of
        Inl e \<Rightarrow> Failed e
      | Inr rs \<Rightarrow> Completed rs (best_model rs))"

subsection \<open>Analysis engine\<close>

text \<open>
  A recommendation: the symbol, the action and three weights. The engine computes the
  weights as reals; the portfolio page reads them as JavaScript numbers.
\<close>

record 'w recommendation =
  rec_symbol :: string
  action :: string
  current_weight :: 'w
  optimal_weight :: 'w
  difference :: 'w

text \<open>
  Modelled from the spec: the recommendation the analysis engine emits for one symbol,
  from the current and the optimal weight of the symbol (backend code missing from the
  repository). The action is \<^verbatim>\<open>increase\<close> if the optimal weight is greater than the
  current one, else \<^verbatim>\<open>decrease\<close>; the difference is the absolute value of optimal
  weight minus current weight. The weights are fractions, as every percentage-like field
  is at the engine boundary.
\<close>

definition recommend :: "string \<Rightarrow> real \<Rightarrow> real \<Rightarrow> real recommendation" where
  "recommend s currentWeight optimalWeight =
     \<lparr>rec_symbol = s,
      action = (if optimalWeight > currentWeight then ''increase'' else ''decrease''),
      current_weight = currentWeight,
      optimal_weight = optimalWeight,
      difference = \<bar>optimalWeight - currentWeight\<bar>\<rparr>"

text \<open>
  Modelled from the spec: the recommendations of \<^verbatim>\<open>analyze\<close> (backend code missing
  from the repository). The optimization engine is a parameter: from the symbols it gives
  the optimal weight of each symbol or fails. Fewer than two current holdings fail with
  \<open>InsufficientHoldings\<close>; otherwise there is one recommendation for each holding.
  The statistics that \<^verbatim>\<open>analyze\<close> also returns are not modelled.
\<close>

definition analyze ::
  "(string list \<Rightarrow> engine_error + (string \<Rightarrow> real)) \<Rightarrow> (string \<times> real) list
     \<Rightarrow> engine_error + real recommendation list" where
  "analyze optimize currentWeights =
     (if length currentWeights < 2 then Inl InsufficientHoldings
      else
        (case optimize (map fst currentWeights) of
           Inl e \<Rightarrow> Inl e
         | Inr optimal \<Rightarrow> Inr (map (\<lambda>(s, w). recommend s w (optimal s)) currentWeights)))"

subsection \<open>How the portfolio page prints percentages (pages/Portfolio.js)\<close>






text \<open>
  The badge of a recommendation is green when \<^verbatim>\<open>rec.action === 'Increase'\<close> and amber
  otherwise.
\<close>

datatype badge = Mint | Amber

definition recommendation_badge :: "'w recommendation \<Rightarrow> badge" where
  "recommendation_badge r = (if action r = ''Increase'' then Mint else Amber)"


subsection \<open>Returns calculator and backtest engine\<close>

text \<open>
  A price series is a list of dated prices; dates are of any linearly ordered type. The
  engine receives one series for each symbol.
\<close>

type_synonym 'd price_series = "('d \<times> real) list"

text \<open>
  Modelled from the spec: the common date index of the returns calculator (backend code
  missing from the repository): the dates of the requested range that are present in
  every series, in the order of the first series.
\<close>

definition aligned_dates :: "'d::linorder \<times> 'd \<Rightarrow> 'd price_series list \<Rightarrow> 'd list" where
  "aligned_dates dateRange series =
     (case series of
        [] \<Rightarrow> []
      | p # ps \<Rightarrow>
          filter (\<lambda>d. fst dateRange \<le> d \<and> d \<le> snd dateRange \<and> list_all (\<lambda>q. d \<in> set (map fst q)) ps)
            (map fst p))"

text \<open>
  Modelled from the spec: the simple return of a series between two dates of the index,
  price at the later date over price at the earlier date, minus one (backend code missing
  from the repository). Both dates are in the series when they come from the index.
\<close>

definition simple_return :: "'d price_series \<Rightarrow> 'd \<Rightarrow> 'd \<Rightarrow> real" where
  "simple_return p d0 d1 =
     (case (map_of p d0, map_of p d1) of
        (Some p0, Some p1) \<Rightarrow> p1 / p0 - 1
      | _ \<Rightarrow> 0)"

text \<open>
  Modelled from the spec: the returns matrix (backend code missing from the repository):
  one row for each period between consecutive dates of the index, holding the date that
  ends the period and one return for each symbol. An index of fewer than two dates fails
  with \<open>InsufficientData\<close>.
\<close>

definition returns_matrix ::
  "'d::linorder \<times> 'd \<Rightarrow> (string \<times> 'd price_series) list \<Rightarrow> engine_error + ('d \<times> real list) list" where
  "returns_matrix dateRange series =
     (let ds = aligned_dates dateRange (map snd series)
      in if length ds < 2 then Inl InsufficientData
         else Inr (map (\<lambda>(d0, d1). (d1, map (\<lambda>(s, p). simple_return p d0 d1) series))
                     (zip ds (tl ds))))"

text \<open>
  Modelled from the spec: the value path of a backtest after its first value (backend
  code missing from the repository). In each period the return of the portfolio is the
  weighted sum of the returns of its constituents and the value grows by it. The weights
  then float with the prices, unless the schedule \<open>rebalance\<close> resets them to the
  target at the boundary that ends the period. The arguments are the schedule, the target
  weights, the number of periods elapsed, the value and the weights at the start of the
  period, and the rows of returns that remain.
\<close>

fun value_path ::
  "(nat \<Rightarrow> bool) \<Rightarrow> real list \<Rightarrow> nat \<Rightarrow> real \<Rightarrow> real list \<Rightarrow> real list list \<Rightarrow> real list" where
  "value_path rebalance target t v w [] = []"
| "value_path rebalance target t v w (r # rs) =
     (let ret = sum_list (map2 (\<lambda>wi ri. wi * ri) w r);
          v' = v * (1 + ret);
          drifted = map2 (\<lambda>wi ri. wi * (1 + ri) / (1 + ret)) w r;
          w' = (if rebalance (Suc t) then target else drifted)
      in v' # value_path rebalance target (Suc t) v' w' rs)"

record 'd backtest_result =
  cumulative_returns :: "('d \<times> real) list"
  total_return :: real

definition weight_of :: "(string \<times> real) list \<Rightarrow> string \<Rightarrow> real" where
  "weight_of ws s = (case map_of ws s of Some w \<Rightarrow> w | None \<Rightarrow> 0)"

text \<open>
  Modelled from the spec: \<^verbatim>\<open>backtest\<close> (backend code missing from the repository).
  The value of the portfolio starts at 1 on the first date of the index and follows the
  value path; the total return is the final value over the initial value, minus one. The
  other statistics of the result are not modelled.
\<close>

definition backtest ::
  "(string \<times> real) list \<Rightarrow> (string \<times> 'd price_series) list \<Rightarrow> (nat \<Rightarrow> bool) \<Rightarrow> 'd::linorder \<times> 'd
     \<Rightarrow> engine_error + 'd backtest_result" where
  "backtest ws series rebalance dateRange =
     (case returns_matrix dateRange series of
        Inl e \<Rightarrow> Inl e
      | Inr m \<Rightarrow>
          (let ds = aligned_dates dateRange (map snd series);
               target = map (\<lambda>(s, p). weight_of ws s) series;
               vs = 1 # value_path rebalance target 0 1 target (map snd m)
           in Inr \<lparr>cumulative_returns = zip ds vs, total_return = last vs / 1 - 1\<rparr>))"

section \<open>Example inputs\<close>

definition aapl :: asset where
  "aapl = \<lparr>symbol = ''AAPL'', name = ''Apple Inc.''\<rparr>"

definition msft :: asset where
  "msft = \<lparr>symbol = ''MSFT'', name = ''Microsoft Corporation''\<rparr>"

text \<open>A backend that accepts every request, and one that fails without a detail.\<close>

definition accepting :: "'r \<Rightarrow> ('q, 'r) backend" where
  "accepting data q = Inr data"

definition failing :: "('q, 'r) backend" where
  "failing q = Inl None"

definition one_asset :: "unit optimizer" where
  "one_asset = fst (addAsset aapl (optimizer_init ''2026-01-01''))"

definition optimizer_session :: "optimizer_action list" where
  "optimizer_session = [AddAsset aapl, AddAsset msft, AddAsset aapl, Optimize]"

definition training_session :: "unit training_action list" where
  "training_session = [MtAddAsset aapl, MtRemoveAsset ''GOOGL'', StartTraining]"

text \<open>Two symbols with weights 0.5 and 0.49609375 = 127/256, which sum to 255/256.\<close>

definition near_one :: "unit backtesting" where
  "near_one = (backtesting_init ''2026-01-01'')\<lparr>bt_symbols := ''A,B'', bt_weights := ''0.5,0.49609375''\<rparr>"

text \<open>Two symbols with weights 0.5 and 0.25.\<close>

definition far_from_one :: "unit backtesting" where
  "far_from_one = (backtesting_init ''2026-01-01'')\<lparr>bt_symbols := ''A,B'', bt_weights := ''0.5,0.25''\<rparr>"

text \<open>Two symbols and three weights.\<close>

definition mismatched :: "unit backtesting" where
  "mismatched = (backtesting_init ''2026-01-01'')\<lparr>bt_symbols := ''A,B'', bt_weights := ''0.5,0.25,0.25''\<rparr>"

text \<open>
  A panel of four trainers: three reach the same test R2, two of those the same test MSE.
\<close>

definition example_panel :: "(string \<times> (unit \<Rightarrow> string + metrics)) list" where
  "example_panel =
     [(''ridge'', \<lambda>d. Inr \<lparr>test_r2 = 4 / 5, test_mse = 1 / 50, test_mae = 1 / 10\<rparr>),
      (''linear'', \<lambda>d. Inr \<lparr>test_r2 = 4 / 5, test_mse = 1 / 100, test_mae = 1 / 10\<rparr>),
      (''forest'', \<lambda>d. Inr \<lparr>test_r2 = 1 / 2, test_mse = 1 / 1000, test_mae = 1 / 20\<rparr>),
      (''lasso'', \<lambda>d. Inr \<lparr>test_r2 = 4 / 5, test_mse = 1 / 100, test_mae = 1 / 5\<rparr>)]"

definition example_results :: "model_result list" where
  "example_results =
     [(''ridge'', \<lparr>test_r2 = 4 / 5, test_mse = 1 / 50, test_mae = 1 / 10\<rparr>),
      (''linear'', \<lparr>test_r2 = 4 / 5, test_mse = 1 / 100, test_mae = 1 / 10\<rparr>),
      (''forest'', \<lparr>test_r2 = 1 / 2, test_mse = 1 / 1000, test_mae = 1 / 20\<rparr>),
      (''lasso'', \<lparr>test_r2 = 4 / 5, test_mse = 1 / 100, test_mae = 1 / 5\<rparr>)]"

text \<open>Two holdings of one half each, and an optimizer that moves an eighth to the first.\<close>

definition example_holdings :: "(string \<times> real) list" where
  "example_holdings = [(''AAPL'', 1 / 2), (''MSFT'', 1 / 2)]"

definition example_optimal :: "string \<Rightarrow> real" where
  "example_optimal s = (if s = ''AAPL'' then 5 / 8 else 3 / 8)"

definition example_optimize :: "string list \<Rightarrow> engine_error + (string \<Rightarrow> real)" where
  "example_optimize syms = Inr example_optimal"


text \<open>
  Prices of two symbols on days numbered from 1; the second series has no price on day 3,
  and day 5 is outside the range of days 1 to 4.
\<close>

definition example_series :: "(string \<times> int price_series) list" where
  "example_series =
     [(''A'', [(1, 100), (2, 110), (3, 120), (4, 99), (5, 100)]),
      (''B'', [(1, 50), (2, 50), (4, 55), (5, 60)])]"

section \<open>Properties of the asset selection\<close>

lemma addAsset_distinct:
  assumes "distinct (map symbol (selectedAssets st))"
  shows "distinct (map symbol (selectedAssets (fst (addAsset a st))))"
  using assms by (auto simp: addAsset_def find_None_iff)

lemma addAsset_no_Post: "Post url q \<notin> set (snd (addAsset a st))"
  by (simp add: addAsset_def)

lemma removeAsset_distinct:
  assumes "distinct (map symbol (selectedAssets st))"
  shows "distinct (map symbol (selectedAssets (removeAsset s st)))"
  using assms by (simp add: removeAsset_def distinct_map_filter)

lemma handleOptimize_selected:
  "selectedAssets (fst (handleOptimize backend st)) = selectedAssets st"
  by (simp add: handleOptimize_def split: sum.splits)

lemma handleOptimize_Post:
  assumes "Post url q \<in> set (snd (handleOptimize backend st))"
  shows "q = optimize_body st \<and> 2 \<le> length (selectedAssets st)"
  using assms by (auto simp: handleOptimize_def split: if_splits sum.splits)

lemma optimizer_step_distinct:
  assumes "distinct (map symbol (selectedAssets st))"
  shows "distinct (map symbol (selectedAssets (fst (optimizer_step backend a st))))"
proof (cases a)
  case (AddAsset x)
  then show ?thesis using assms by (simp add: addAsset_distinct)
next
  case (RemoveAsset s)
  then show ?thesis using assms by (simp add: removeAsset_distinct)
next
  case Optimize
  then show ?thesis using assms by (simp add: handleOptimize_selected)
qed (use assms in simp_all)

lemma optimizer_step_Post:
  assumes "distinct (map symbol (selectedAssets st))"
    and "Post url q \<in> set (snd (optimizer_step backend a st))"
  shows "distinct (symbols q)"
proof (cases a)
  case (AddAsset x)
  then show ?thesis using assms(2) by (simp add: addAsset_no_Post)
next
  case Optimize
  then have "q = optimize_body st" using assms(2) handleOptimize_Post by fastforce
  then show ?thesis using assms(1) by (simp add: optimize_body_def)
qed (use assms(2) in simp_all)

lemma optimizer_run_Post:
  assumes "distinct (map symbol (selectedAssets st))"
    and "Post url q \<in> set (snd (optimizer_run backend acts st))"
  shows "distinct (symbols q)"
  using assms
proof (induction acts arbitrary: st)
  case Nil
  then show ?case by simp
next
  case (Cons a acts)
  obtain st' evs where step: "optimizer_step backend a st = (st', evs)"
    by (cases "optimizer_step backend a st")
  obtain st'' evs' where rest: "optimizer_run backend acts st' = (st'', evs')"
    by (cases "optimizer_run backend acts st'")
  have d': "distinct (map symbol (selectedAssets st'))"
    using optimizer_step_distinct [OF Cons.prems(1), of backend a] step by simp
  from Cons.prems(2) step rest have "Post url q \<in> set evs \<or> Post url q \<in> set evs'"
    by simp
  then show ?case
  proof
    assume "Post url q \<in> set evs"
    then show ?thesis using optimizer_step_Post [OF Cons.prems(1), of url q backend a] step by simp
  next
    assume "Post url q \<in> set evs'"
    then show ?thesis using Cons.IH [OF d'] rest by simp
  qed
qed

lemma mt_addAsset_distinct:
  assumes "distinct (map symbol (mt_selectedAssets st))"
  shows "distinct (map symbol (mt_selectedAssets (fst (mt_addAsset a st))))"
  using assms by (auto simp: mt_addAsset_def Let_def find_None_iff)

lemma mt_addAsset_no_Post: "Post url q \<notin> set (snd (mt_addAsset a st))"
  by (simp add: mt_addAsset_def Let_def)

lemma mt_removeAsset_distinct:
  assumes "distinct (map symbol (mt_selectedAssets st))"
  shows "distinct (map symbol (mt_selectedAssets (mt_removeAsset s st)))"
  using assms by (simp add: mt_removeAsset_def Let_def distinct_map_filter)

lemma handleStartTraining_selected:
  "mt_selectedAssets (fst (handleStartTraining backend st)) = mt_selectedAssets st"
  by (simp add: handleStartTraining_def split: sum.splits)

lemma handleStartTraining_Post:
  assumes "Post url q \<in> set (snd (handleStartTraining backend st))"
  shows "q = train_body st"
  using assms by (auto simp: handleStartTraining_def split: if_splits sum.splits)

lemma pollTrainingStatus_selected:
  "mt_selectedAssets (fst (pollTrainingStatus data st)) = mt_selectedAssets st"
  by (simp add: pollTrainingStatus_def)

lemma pollTrainingStatus_no_Post: "Post url q \<notin> set (snd (pollTrainingStatus data st))"
  by (simp add: pollTrainingStatus_def)

lemma training_step_distinct:
  assumes "distinct (map symbol (mt_selectedAssets st))"
  shows "distinct (map symbol (mt_selectedAssets (fst (training_step backend a st))))"
proof (cases a)
  case (MtAddAsset x)
  then show ?thesis using assms by (simp add: mt_addAsset_distinct)
next
  case (MtRemoveAsset s)
  then show ?thesis using assms by (simp add: mt_removeAsset_distinct)
next
  case StartTraining
  then show ?thesis using assms by (simp add: handleStartTraining_selected)
next
  case (PollStatus d)
  then show ?thesis using assms by (simp add: pollTrainingStatus_selected)
qed (use assms in simp_all)

lemma training_step_Post:
  assumes "distinct (map symbol (mt_selectedAssets st))"
    and "Post url q \<in> set (snd (training_step backend a st))"
  shows "distinct (symbols q)"
proof (cases a)
  case (MtAddAsset x)
  then show ?thesis using assms(2) by (simp add: mt_addAsset_no_Post)
next
  case StartTraining
  then have "q = train_body st" using assms(2) handleStartTraining_Post by fastforce
  then show ?thesis using assms(1) by (simp add: train_body_def)
next
  case (PollStatus d)
  then show ?thesis using assms(2) by (simp add: pollTrainingStatus_no_Post)
qed (use assms(2) in simp_all)

lemma training_run_Post:
  assumes "distinct (map symbol (mt_selectedAssets st))"
    and "Post url q \<in> set (snd (training_run backend acts st))"
  shows "distinct (symbols q)"
  using assms
proof (induction acts arbitrary: st)
  case Nil
  then show ?case by simp
next
  case (Cons a acts)
  obtain st' evs where step: "training_step backend a st = (st', evs)"
    by (cases "training_step backend a st")
  obtain st'' evs' where rest: "training_run backend acts st' = (st'', evs')"
    by (cases "training_run backend acts st'")
  have d': "distinct (map symbol (mt_selectedAssets st'))"
    using training_step_distinct [OF Cons.prems(1), of backend a] step by simp
  from Cons.prems(2) step rest have "Post url q \<in> set evs \<or> Post url q \<in> set evs'"
    by simp
  then show ?case
  proof
    assume "Post url q \<in> set evs"
    then show ?thesis using training_step_Post [OF Cons.prems(1), of url q backend a] step by simp
  next
    assume "Post url q \<in> set evs'"
    then show ?thesis using Cons.IH [OF d'] rest by simp
  qed
qed

lemma optimizer_init_distinct: "distinct (map symbol (selectedAssets (optimizer_init today)))"
  by (simp add: optimizer_init_def)

lemma training_init_distinct: "distinct (map symbol (mt_selectedAssets (training_init today)))"
  by (simp add: training_init_def)

text \<open>
  C10. Adding an asset whose symbol is already selected leaves the selection unchanged, on
  the optimizer page and on the training page, so adding the same asset twice selects it
  once; and in every session that starts from the initial state of the page, the symbol
  list of every optimize request and of every train request has no duplicate.
\<close>

theorem addAsset_idempotent_no_duplicates:
  "(symbol a \<in> set (map symbol (selectedAssets st))
      \<longrightarrow> selectedAssets (fst (addAsset a st)) = selectedAssets st)
   \<and> (symbol a \<in> set (map symbol (mt_selectedAssets mt))
      \<longrightarrow> mt_selectedAssets (fst (mt_addAsset a mt)) = mt_selectedAssets mt)
   \<and> selectedAssets (fst (addAsset a (fst (addAsset a st)))) = selectedAssets (fst (addAsset a st))
   \<and> mt_selectedAssets (fst (mt_addAsset a (fst (mt_addAsset a mt))))
       = mt_selectedAssets (fst (mt_addAsset a mt))
   \<and> (Post url q \<in> set (snd (optimizer_run backend acts (optimizer_init today)))
      \<longrightarrow> distinct (symbols q))
   \<and> (Post url' q' \<in> set (snd (training_run backend' acts' (training_init today)))
      \<longrightarrow> distinct (symbols q'))"
proof (intro conjI impI)
  assume "symbol a \<in> set (map symbol (selectedAssets st))"
  then show "selectedAssets (fst (addAsset a st)) = selectedAssets st"
    by (auto simp: addAsset_def find_None_iff)
next
  assume "symbol a \<in> set (map symbol (mt_selectedAssets mt))"
  then show "mt_selectedAssets (fst (mt_addAsset a mt)) = mt_selectedAssets mt"
    by (auto simp: mt_addAsset_def Let_def find_None_iff)
next
  show "selectedAssets (fst (addAsset a (fst (addAsset a st)))) = selectedAssets (fst (addAsset a st))"
    by (auto simp: addAsset_def find_None_iff)
next
  show "mt_selectedAssets (fst (mt_addAsset a (fst (mt_addAsset a mt))))
          = mt_selectedAssets (fst (mt_addAsset a mt))"
    by (auto simp: mt_addAsset_def Let_def find_None_iff)
next
  assume "Post url q \<in> set (snd (optimizer_run backend acts (optimizer_init today)))"
  then show "distinct (symbols q)"
    using optimizer_run_Post [OF optimizer_init_distinct] by blast
next
  assume "Post url' q' \<in> set (snd (training_run backend' acts' (training_init today)))"
  then show "distinct (symbols q')"
    using training_run_Post [OF training_init_distinct] by blast
qed

theorem addAsset_idempotent_no_duplicates_witness:
  "symbol aapl \<in> set (map symbol (selectedAssets one_asset))
   \<and> selectedAssets (fst (addAsset aapl one_asset)) = selectedAssets one_asset
   \<and> symbol aapl \<in> set (map symbol (mt_selectedAssets (training_init ''2026-01-01'' :: unit training)))
   \<and> mt_selectedAssets (fst (mt_addAsset aapl (training_init ''2026-01-01'' :: unit training)))
       = mt_selectedAssets (training_init ''2026-01-01'' :: unit training)
   \<and> Post ''/optimize''
        \<lparr>symbols = [''AAPL'', ''MSFT''], asset_type = ''stock'', start_date = ''2022-01-01'',
         end_date = ''2026-01-01'', risk_tolerance = 1 / 2, rebalance_freq = ''daily''\<rparr>
        \<in> set (snd (optimizer_run (accepting ()) optimizer_session (optimizer_init ''2026-01-01'')))
   \<and> distinct [''AAPL'', ''MSFT'']
   \<and> Post ''/models/train''
        \<lparr>symbols = [''AAPL'', ''MSFT''], asset_type = ''stock'', start_date = ''2020-01-01'',
         end_date = ''2026-01-01''\<rparr>
        \<in> set (snd (training_run (accepting ''task-1'') training_session
                      (training_init ''2026-01-01'')))"
  using addAsset_idempotent_no_duplicates
    [where a = aapl and st = one_asset and mt = "training_init ''2026-01-01'' :: unit training"
       and url = "''/optimize''"
       and q = "\<lparr>symbols = [''AAPL'', ''MSFT''], asset_type = ''stock'',
                  start_date = ''2022-01-01'', end_date = ''2026-01-01'',
                  risk_tolerance = 1 / 2, rebalance_freq = ''daily''\<rparr>"
       and backend = "accepting ()" and acts = optimizer_session and today = "''2026-01-01''"
       and url' = "''/models/train''"
       and q' = "\<lparr>symbols = [''AAPL'', ''MSFT''], asset_type = ''stock'',
                   start_date = ''2020-01-01'', end_date = ''2026-01-01''\<rparr>"
       and backend' = "accepting ''task-1''" and acts' = training_session]
  by (simp add: aapl_def msft_def one_asset_def optimizer_session_def training_session_def
        accepting_def optimizer_init_def training_init_def addAsset_def mt_addAsset_def
        mt_removeAsset_def handleOptimize_def handleStartTraining_def optimize_body_def
        train_body_def Let_def)

section \<open>Rejection of an optimize request with too few symbols\<close>

text \<open>
  C8. With fewer than two selected assets (in particular with exactly one),
  \<open>handleOptimize\<close> rejects the request: it shows the error
  \<^verbatim>\<open>Select at least 2 assets\<close>, posts nothing and leaves the state as it was. Every
  optimize request that is posted carries at least two symbols.
\<close>

theorem handleOptimize_rejects_fewer_than_two:
  "(length (selectedAssets st) < 2
      \<longrightarrow> handleOptimize backend st = (st, [Toast_error ''Select at least 2 assets'']))
   \<and> (Post url q \<in> set (snd (handleOptimize backend st')) \<longrightarrow> 2 \<le> length (symbols q))"
proof (intro conjI impI)
  assume "length (selectedAssets st) < 2"
  then show "handleOptimize backend st = (st, [Toast_error ''Select at least 2 assets''])"
    by (simp add: handleOptimize_def)
next
  assume "Post url q \<in> set (snd (handleOptimize backend st'))"
  then have "q = optimize_body st' \<and> 2 \<le> length (selectedAssets st')"
    by (rule handleOptimize_Post)
  then show "2 \<le> length (symbols q)"
    by (simp add: optimize_body_def)
qed

theorem handleOptimize_rejects_fewer_than_two_witness:
  "length (selectedAssets one_asset) = 1
   \<and> handleOptimize (accepting ()) one_asset = (one_asset, [Toast_error ''Select at least 2 assets''])
   \<and> Post ''/optimize'' (optimize_body (fst (addAsset msft one_asset)))
        \<in> set (snd (handleOptimize (accepting ()) (fst (addAsset msft one_asset))))
   \<and> 2 \<le> length (symbols (optimize_body (fst (addAsset msft one_asset))))"
  using handleOptimize_rejects_fewer_than_two
    [where st = one_asset and backend = "accepting ()" and url = "''/optimize''"
       and q = "optimize_body (fst (addAsset msft one_asset))"
       and st' = "fst (addAsset msft one_asset)"]
  by (simp add: aapl_def msft_def one_asset_def accepting_def optimizer_init_def addAsset_def
        handleOptimize_def optimize_body_def)

section \<open>The checks of the backtesting form\<close>

lemma handleRunBacktest_Post:
  assumes "Post url q \<in> set (snd (handleRunBacktest backend st))"
  shows "q = backtest_body st \<and> symbolList st \<noteq> []
         \<and> length (symbolList st) = length (weightList st)
         \<and> \<not> js_gt (js_abs (js_sub (weightSum st) (Num 1))) (number_value (1 / 100))"
  using assms by (auto simp: handleRunBacktest_def split: if_splits sum.splits)

lemma handleRunBacktest_rejected:
  assumes "symbolList st = [] \<or> length (symbolList st) \<noteq> length (weightList st)
           \<or> js_gt (js_abs (js_sub (weightSum st) (Num 1))) (number_value (1 / 100))"
  shows "fst (handleRunBacktest backend st) = st
         \<and> (\<forall>e \<in> set (snd (handleRunBacktest backend st)). \<not> is_Post e)"
  using assms by (auto simp: handleRunBacktest_def)

text \<open>The example forms, evaluated.\<close>

lemmas number_eval = number_value_def round_pos_def exponent_def exponent_up.simps
  exponent_down.simps pow2_def round_even_def Let_def

lemmas parse_eval = symbolList_def weightList_def js_split_def trim_def is_space_def
  parseFloat_def unsigned_literal_def is_digit_def digits_value_def scale10_def
  exponent_part_def isNaN_def

lemma tolerance_value: "number_value (1 / 100) = Num (5764607523034235 / 2 ^ 59)"
  by (simp add: number_eval)

lemma near_one_lists:
  "symbolList near_one = [''A'', ''B''] \<and> weightList near_one = [Num (1 / 2), Num (127 / 256)]"
  by (simp add: near_one_def backtesting_init_def parse_eval number_eval)

lemma far_from_one_lists:
  "symbolList far_from_one = [''A'', ''B''] \<and> weightList far_from_one = [Num (1 / 2), Num (1 / 4)]"
  by (simp add: far_from_one_def backtesting_init_def parse_eval number_eval)

lemma mismatched_lists:
  "symbolList mismatched = [''A'', ''B'']
   \<and> weightList mismatched = [Num (1 / 2), Num (1 / 4), Num (1 / 4)]"
  by (simp add: mismatched_def backtesting_init_def parse_eval number_eval)

lemma near_one_sum: "weightSum near_one = Num (255 / 256)"
  by (simp add: weightSum_def near_one_lists number_eval)

lemma far_from_one_sum: "weightSum far_from_one = Num (3 / 4)"
  by (simp add: weightSum_def far_from_one_lists number_eval)

lemma near_one_guard:
  "\<not> js_gt (js_abs (js_sub (weightSum near_one) (Num 1))) (number_value (1 / 100))"
  by (simp add: near_one_sum js_sub_def tolerance_value) (simp add: number_eval)

lemma far_from_one_guard:
  "js_gt (js_abs (js_sub (weightSum far_from_one) (Num 1))) (number_value (1 / 100))"
  by (simp add: far_from_one_sum js_sub_def tolerance_value) (simp add: number_eval)

lemma near_one_submitted:
  "handleRunBacktest (accepting ()) near_one
     = (near_one\<lparr>bt_results := Some (), bt_running := False\<rparr>,
        [Post ''/backtest'' (backtest_body near_one), Toast_success ''Backtest completed!''])"
  using near_one_guard by (simp add: handleRunBacktest_def near_one_lists accepting_def)

lemma mismatched_rejected:
  "handleRunBacktest backend mismatched
     = (mismatched, [Toast_error ''Number of symbols must match number of weights''])"
  by (simp add: handleRunBacktest_def mismatched_lists)

lemma far_from_one_rejected:
  "handleRunBacktest backend far_from_one = (far_from_one, [Toast_error ''Weights must sum to 1.0''])"
  using far_from_one_guard by (simp add: handleRunBacktest_def far_from_one_lists)

text \<open>
  C9. A submission of the backtest form posts a request only if the number of parsed
  weights equals the number of symbols and there is at least one symbol. Otherwise
  nothing is posted and the state of the form is the one before the submission.
\<close>

theorem handleRunBacktest_counts_checked:
  "((\<exists>e \<in> set (snd (handleRunBacktest backend st)). is_Post e)
      \<longrightarrow> length (weightList st) = length (symbolList st) \<and> 1 \<le> length (symbolList st))
   \<and> (\<not> (length (weightList st') = length (symbolList st') \<and> 1 \<le> length (symbolList st'))
      \<longrightarrow> fst (handleRunBacktest backend st') = st'
          \<and> (\<forall>e \<in> set (snd (handleRunBacktest backend st')). \<not> is_Post e))"
proof (intro conjI impI)
  assume "\<exists>e \<in> set (snd (handleRunBacktest backend st)). is_Post e"
  then obtain e where e: "e \<in> set (snd (handleRunBacktest backend st))" "is_Post e"
    by blast
  from e(2) obtain url q where "e = Post url q"
    by (cases e) simp_all
  with e have *: "symbolList st \<noteq> [] \<and> length (symbolList st) = length (weightList st)"
    using handleRunBacktest_Post by blast
  show "length (weightList st) = length (symbolList st)"
    using * by simp
  show "1 \<le> length (symbolList st)"
    using * by (cases "symbolList st") simp_all
next
  assume "\<not> (length (weightList st') = length (symbolList st') \<and> 1 \<le> length (symbolList st'))"
  then have **: "symbolList st' = [] \<or> length (symbolList st') \<noteq> length (weightList st')"
    by (cases "symbolList st'") auto
  show "fst (handleRunBacktest backend st') = st'"
    using handleRunBacktest_rejected [of st' backend] ** by blast
  show "\<forall>e \<in> set (snd (handleRunBacktest backend st')). \<not> is_Post e"
    using handleRunBacktest_rejected [of st' backend] ** by blast
qed

theorem handleRunBacktest_counts_checked_witness:
  "(\<exists>e \<in> set (snd (handleRunBacktest (accepting ()) near_one)). is_Post e)
   \<and> length (weightList near_one) = length (symbolList near_one)
   \<and> 1 \<le> length (symbolList near_one)
   \<and> \<not> (length (weightList mismatched) = length (symbolList mismatched)
         \<and> 1 \<le> length (symbolList mismatched))
   \<and> fst (handleRunBacktest (accepting ()) mismatched) = mismatched
   \<and> snd (handleRunBacktest (accepting ()) mismatched)
       = [Toast_error ''Number of symbols must match number of weights'']"
  using handleRunBacktest_counts_checked
    [where backend = "accepting ()" and st = near_one and st' = mismatched]
  by (simp add: near_one_submitted mismatched_lists mismatched_rejected)

section \<open>Rounding to binary64\<close>

text \<open>
  The Number value for a real differs from it by at most half a unit in the last place:
  a relative error of \<open>2 ^ - 53\<close> for a normal number, an absolute error of
  \<open>2 ^ - 1075\<close> below the normal numbers.
\<close>

lemma round_even_error: "\<bar>of_int (round_even y) - y\<bar> \<le> 1 / 2"
proof -
  have "of_int \<lfloor>y\<rfloor> \<le> y" "y < of_int \<lfloor>y\<rfloor> + 1"
    by linarith+
  then show ?thesis
    by (auto simp: round_even_def Let_def)
qed

lemma pow2_pos: "0 < pow2 e"
  by (simp add: pow2_def)

lemma exponent_up_le: "1 \<le> y \<Longrightarrow> 2 ^ exponent_up fuel k y \<le> y * 2 ^ k"
proof (induction fuel k y rule: exponent_up.induct)
  case (1 fuel k y)
  show ?case
  proof (cases "fuel = 0 \<or> y < 2")
    case True
    then have "exponent_up fuel k y = k"
      by (simp add: exponent_up.simps)
    then show ?thesis using "1.prems" by simp
  next
    case False
    then have eq: "exponent_up fuel k y = exponent_up (fuel - 1) (k + 1) (y / 2)"
      by (subst exponent_up.simps) simp
    have "2 ^ exponent_up (fuel - 1) (k + 1) (y / 2) \<le> y / 2 * 2 ^ (k + 1)"
      using False by (intro "1.IH") simp_all
    then show ?thesis by (simp add: eq)
  qed
qed

lemma exponent_down_ge: "k \<le> exponent_down fuel k y"
proof (induction fuel k y rule: exponent_down.induct)
  case (1 fuel k y)
  show ?case
  proof (cases "fuel = 0 \<or> 1 \<le> y")
    case True
    then show ?thesis by (simp add: exponent_down.simps)
  next
    case False
    then have eq: "exponent_down fuel k y = exponent_down (fuel - 1) (k + 1) (2 * y)"
      by (subst exponent_down.simps) simp
    have "k + 1 \<le> exponent_down (fuel - 1) (k + 1) (2 * y)"
      using False by (intro "1.IH") simp_all
    then show ?thesis by (simp add: eq)
  qed
qed

lemma exponent_down_le:
  "1 \<le> y * 2 ^ fuel \<Longrightarrow> 1 \<le> y * 2 ^ (exponent_down fuel k y - k)"
proof (induction fuel k y rule: exponent_down.induct)
  case (1 fuel k y)
  show ?case
  proof (cases "fuel = 0 \<or> 1 \<le> y")
    case True
    then have "exponent_down fuel k y = k"
      by (simp add: exponent_down.simps)
    moreover have "1 \<le> y" using True "1.prems" by auto
    ultimately show ?thesis by simp
  next
    case False
    then have eq: "exponent_down fuel k y = exponent_down (fuel - 1) (k + 1) (2 * y)"
      by (subst exponent_down.simps) simp
    let ?k' = "exponent_down (fuel - 1) (k + 1) (2 * y)"
    from False obtain f where f: "fuel = Suc f" by (cases fuel) auto
    have "1 \<le> 2 * y * 2 ^ (fuel - 1)"
      using "1.prems" f by simp
    then have IH: "1 \<le> 2 * y * 2 ^ (?k' - (k + 1))"
      using False by (intro "1.IH") simp_all
    have "k + 1 \<le> ?k'" by (rule exponent_down_ge)
    then obtain j where j: "?k' = k + 1 + j"
      using le_Suc_ex by blast
    have "1 \<le> 2 * y * 2 ^ j"
      using IH unfolding j by simp
    then have "1 \<le> y * 2 ^ (k + 1 + j - k)"
      by simp
    then show ?thesis
      unfolding eq j .
  qed
qed

lemma pow2_neg_int: "pow2 (- int k) = 1 / 2 ^ k"
  by (simp add: pow2_def)

lemma exponent_le:
  assumes "pow2 (- 1022) \<le> x"
  shows "pow2 (exponent x) \<le> x"
proof (cases "1 \<le> x")
  case True
  then have "2 ^ exponent_up 1023 0 x \<le> x * 2 ^ 0"
    by (rule exponent_up_le)
  then show ?thesis using True by (simp add: exponent_def pow2_def)
next
  case False
  let ?k = "exponent_down 1021 1 (2 * x)"
  have "1 \<le> x * 2 ^ 1022"
    using assms by (simp add: pow2_def field_simps)
  then have "1 \<le> 2 * x * 2 ^ 1021" by simp
  then have *: "1 \<le> 2 * x * 2 ^ (?k - 1)"
    by (rule exponent_down_le)
  have "1 \<le> ?k" by (rule exponent_down_ge)
  then obtain j where j: "?k = Suc j"
    by (cases ?k) auto
  have "1 \<le> 2 * x * 2 ^ j"
    using * unfolding j by simp
  then have "1 \<le> x * 2 ^ ?k"
    unfolding j by simp
  then have "1 / 2 ^ ?k \<le> x"
    by (simp add: field_simps)
  then show ?thesis using False by (simp add: exponent_def pow2_neg_int)
qed

lemma pow2_diff: "pow2 (e - 52) = pow2 e / 2 ^ 52"
proof -
  have "pow2 a = 2 powi a" for a
    by (simp add: pow2_def power_int_def power_one_over)
  then show ?thesis
    by (simp add: power_int_diff)
qed

lemma round_pos_error:
  assumes "0 < x" "round_pos x = Num v"
  shows "\<bar>v - x\<bar> \<le> x / 2 ^ 53 + 1 / 2 ^ 1075"
proof -
  define e where "e = (if x < pow2 (- 1022) then - 1074 else exponent x - 52)"
  have v: "v = of_int (round_even (x / pow2 e)) * pow2 e"
    using assms(2) by (auto simp: round_pos_def Let_def e_def split: if_splits)
  have p: "0 < pow2 e" by (rule pow2_pos)
  have "\<bar>v - x\<bar> = \<bar>of_int (round_even (x / pow2 e)) - x / pow2 e\<bar> * pow2 e"
  proof -
    have "v - x = (of_int (round_even (x / pow2 e)) - x / pow2 e) * pow2 e"
      using p by (simp add: v field_simps)
    then show ?thesis using p by (simp add: abs_mult)
  qed
  also have "\<dots> \<le> 1 / 2 * pow2 e"
    using p round_even_error [of "x / pow2 e"] by (intro mult_right_mono) simp_all
  finally have half: "\<bar>v - x\<bar> \<le> pow2 e / 2" by simp
  show ?thesis
  proof (cases "x < pow2 (- 1022)")
    case True
    then have "pow2 e / 2 = 1 / 2 ^ 1075"
      by (simp add: e_def pow2_def)
    then show ?thesis using half assms(1) by simp
  next
    case False
    then have "pow2 (exponent x) \<le> x"
      by (intro exponent_le) simp
    then have "pow2 e / 2 \<le> x / 2 ^ 53"
      using False by (simp add: e_def pow2_diff)
    then show ?thesis using half by simp
  qed
qed

lemma number_value_error:
  assumes "number_value x = Num v"
  shows "\<bar>v - x\<bar> \<le> \<bar>x\<bar> / 2 ^ 53 + 1 / 2 ^ 1075"
proof -
  consider "x = 0" | "0 < x" | "x < 0" by linarith
  then show ?thesis
  proof cases
    case 1
    then show ?thesis using assms by (simp add: number_value_def)
  next
    case 2
    then have "round_pos x = Num v" using assms by (simp add: number_value_def)
    then show ?thesis using round_pos_error [of x v] 2 by simp
  next
    case 3
    then have "js_neg (round_pos (- x)) = Num v" using assms by (simp add: number_value_def)
    then have "round_pos (- x) = Num (- v)"
      by (cases "round_pos (- x)") simp_all
    then show ?thesis using round_pos_error [of "- x" "- v"] 3 by simp
  qed
qed

lemma round_pos_cases: "round_pos x = PosInfinity \<or> (\<exists>v. round_pos x = Num v)"
  by (simp add: round_pos_def Let_def)

lemma number_value_cases:
  "number_value x = PosInfinity \<or> number_value x = NegInfinity \<or> (\<exists>v. number_value x = Num v)"
  using round_pos_cases [of x] round_pos_cases [of "- x"]
  by (auto simp: number_value_def)

section \<open>The tolerance of the weight sum\<close>

text \<open>
  The guard of the form, \<^verbatim>\<open>Math.abs(weightSum - 1) > 0.01\<close> in binary64 arithmetic, and
  what it means for the sum as a real number: the subtraction and the constant are
  rounded, which moves the bound by less than \<open>1 / 10 ^ 17\<close>.
\<close>


lemma guard_false_bound:
  assumes "\<not> js_gt (js_abs (js_sub (Num s) (Num 1))) (number_value (1 / 100))"
  shows "\<bar>s - 1\<bar> \<le> 1 / 100 + 1 / 10 ^ 17"
proof -
  have sub: "js_sub (Num s) (Num 1) = number_value (s - 1)"
    by (simp add: js_sub_def)
  from number_value_cases [of "s - 1"] assms obtain e where e: "number_value (s - 1) = Num e"
    by (auto simp: sub tolerance_value)
  define c :: real where "c = 1 / 2 ^ 1075"
  have c: "c \<le> 1 / 10 ^ 20"
    by (simp add: c_def)
  define a where "a = \<bar>s - 1\<bar>"
  define b where "b = \<bar>e\<bar>"
  have "b \<le> 5764607523034235 / 2 ^ 59"
    using assms by (simp add: sub e tolerance_value b_def)
  moreover have "\<bar>e - (s - 1)\<bar> \<le> a / 2 ^ 53 + c"
    unfolding c_def a_def using e by (rule number_value_error)
  then have "a \<le> b + a / 2 ^ 53 + c"
    unfolding a_def b_def by linarith
  ultimately have "a \<le> 1 / 100 + 1 / 10 ^ 17"
    using c by simp
  then show ?thesis
    by (simp add: a_def)
qed

lemma guard_true:
  assumes "1 / 100 + 1 / 10 ^ 17 < \<bar>s - 1\<bar>"
  shows "js_gt (js_abs (js_sub (Num s) (Num 1))) (number_value (1 / 100))"
proof -
  have sub: "js_sub (Num s) (Num 1) = number_value (s - 1)"
    by (simp add: js_sub_def)
  from number_value_cases [of "s - 1"] show ?thesis
  proof (elim disjE exE)
    fix e
    assume e: "number_value (s - 1) = Num e"
    define c :: real where "c = 1 / 2 ^ 1075"
    have c: "c \<le> 1 / 10 ^ 20"
      by (simp add: c_def)
    define a where "a = \<bar>s - 1\<bar>"
    define b where "b = \<bar>e\<bar>"
    have "\<bar>e - (s - 1)\<bar> \<le> a / 2 ^ 53 + c"
      unfolding c_def a_def using e by (rule number_value_error)
    then have "a \<le> b + a / 2 ^ 53 + c"
      unfolding a_def b_def by linarith
    moreover have "1 / 100 + 1 / 10 ^ 17 < a"
      using assms by (simp add: a_def)
    ultimately have "5764607523034235 / 2 ^ 59 < b"
      using c by simp
    then have "5764607523034235 / 2 ^ 59 < \<bar>e\<bar>"
      by (simp add: b_def)
    then show ?thesis by (simp add: sub e tolerance_value)
  qed (simp_all add: sub tolerance_value)
qed

lemma weightsObj_fold:
  assumes "n \<le> length xs" "n \<le> length ys"
  shows "fold (\<lambda>idx obj. if xs ! idx = p then obj else obj(xs ! idx \<mapsto> ys ! idx)) [0 ..< n] Map.empty
           = (\<lambda>k. if k = p then None else map_of (rev (zip (take n xs) (take n ys))) k)"
  using assms
proof (induction n)
  case 0
  then show ?case by (simp add: fun_eq_iff)
next
  case (Suc n)
  have n: "n < length xs" "n < length ys" using Suc.prems by simp_all
  have z: "zip (take (Suc n) xs) (take (Suc n) ys)
             = zip (take n xs) (take n ys) @ [(xs ! n, ys ! n)]"
    using n by (simp add: take_Suc_conv_app_nth)
  show ?case
    using Suc.IH n by (simp add: z fun_eq_iff)
qed

lemma weightsObj_lookup:
  assumes "length (symbolList st) = length (weightList st)"
  shows "weightsObj st k
           = (if k = ''__proto__'' then None
              else map_of (rev (zip (symbolList st) (weightList st))) k)"
  using weightsObj_fold [of "length (symbolList st)" "symbolList st" "weightList st" "''__proto__''"]
    assms
  by (simp add: weightsObj_def)

lemma near_one_weights:
  "weights (backtest_body near_one) ''A'' = Some (Num (1 / 2))
   \<and> weights (backtest_body near_one) ''B'' = Some (Num (127 / 256))"
  by (simp add: backtest_body_def weightsObj_lookup near_one_lists)

text \<open>
  C3, as the form checks it. The tolerance of the check is 0.01: the form of
  \<open>near_one\<close>, whose weights 0.5 and 0.49609375 sum to 255/256, is submitted although
  its sum is further than 0.000001 from 1.
\<close>

theorem backtest_tolerance_counterexample:
  "weightSum near_one = Num (255 / 256)
   \<and> \<not> \<bar>255 / 256 - 1\<bar> \<le> (1 / 1000000 :: real)
   \<and> handleRunBacktest (accepting ()) near_one
       = (near_one\<lparr>bt_results := Some (), bt_running := False\<rparr>,
          [Post ''/backtest'' (backtest_body near_one), Toast_success ''Backtest completed!''])
   \<and> weights (backtest_body near_one) ''A'' = Some (Num (1 / 2))
   \<and> weights (backtest_body near_one) ''B'' = Some (Num (127 / 256))"
  by (simp add: near_one_submitted near_one_weights near_one_sum)

text \<open>
  C3, amended. A form for which \<^verbatim>\<open>Math.abs(weightSum - 1) > 0.01\<close> holds in binary64
  arithmetic is rejected: nothing is posted and the state is unchanged, and when there is
  at least one symbol and as many weights as symbols the error shown is
  \<^verbatim>\<open>Weights must sum to 1.0\<close>. That comparison holds whenever the sum of the parsed
  weights is a finite number further than \<open>0.01 + 1 / 10 ^ 17\<close> from 1. For every request
  that is posted the comparison does not hold, so a finite sum of the parsed weights lies
  within \<open>0.01 + 1 / 10 ^ 17\<close> of 1; the request carries the symbol list, and its weights
  object gives every symbol other than \<^verbatim>\<open>__proto__\<close> the last weight entered for it.
\<close>

theorem handleRunBacktest_weight_sum_checked:
  "(js_gt (js_abs (js_sub (weightSum st) (Num 1))) (number_value (1 / 100)) \<longrightarrow>
      fst (handleRunBacktest backend st) = st
      \<and> (\<forall>e \<in> set (snd (handleRunBacktest backend st)). \<not> is_Post e)
      \<and> (symbolList st \<noteq> [] \<and> length (symbolList st) = length (weightList st)
           \<longrightarrow> snd (handleRunBacktest backend st) = [Toast_error ''Weights must sum to 1.0'']))
   \<and> (weightSum st = Num s \<and> 1 / 100 + 1 / 10 ^ 17 < \<bar>s - 1\<bar> \<longrightarrow>
        js_gt (js_abs (js_sub (weightSum st) (Num 1))) (number_value (1 / 100)))
   \<and> (Post url q \<in> set (snd (handleRunBacktest backend st')) \<longrightarrow>
        \<not> js_gt (js_abs (js_sub (weightSum st') (Num 1))) (number_value (1 / 100))
        \<and> (\<forall>s'. weightSum st' = Num s' \<longrightarrow> \<bar>s' - 1\<bar> \<le> 1 / 100 + 1 / 10 ^ 17)
        \<and> symbols q = symbolList st'
        \<and> (\<forall>k. weights q k
                 = (if k = ''__proto__'' then None
                    else map_of (rev (zip (symbolList st') (weightList st'))) k)))"
proof (intro conjI impI allI)
  assume gt: "js_gt (js_abs (js_sub (weightSum st) (Num 1))) (number_value (1 / 100))"
  show "fst (handleRunBacktest backend st) = st"
    using handleRunBacktest_rejected [of st backend] gt by blast
  show "\<forall>e \<in> set (snd (handleRunBacktest backend st)). \<not> is_Post e"
    using handleRunBacktest_rejected [of st backend] gt by blast
  assume "symbolList st \<noteq> [] \<and> length (symbolList st) = length (weightList st)"
  then show "snd (handleRunBacktest backend st) = [Toast_error ''Weights must sum to 1.0'']"
    using gt unfolding handleRunBacktest_def by (cases "symbolList st") auto
next
  assume "weightSum st = Num s \<and> 1 / 100 + 1 / 10 ^ 17 < \<bar>s - 1\<bar>"
  then show "js_gt (js_abs (js_sub (weightSum st) (Num 1))) (number_value (1 / 100))"
    using guard_true [of s] by simp
next
  assume p: "Post url q \<in> set (snd (handleRunBacktest backend st'))"
  then show ng: "\<not> js_gt (js_abs (js_sub (weightSum st') (Num 1))) (number_value (1 / 100))"
    using handleRunBacktest_Post [of url q backend st'] by simp
  {
    fix s'
    assume "weightSum st' = Num s'"
    then show "\<bar>s' - 1\<bar> \<le> 1 / 100 + 1 / 10 ^ 17"
      using ng guard_false_bound [of s'] by simp
  }
  from p have q: "q = backtest_body st'"
    and len: "length (symbolList st') = length (weightList st')"
    using handleRunBacktest_Post [of url q backend st'] by simp_all
  show "symbols q = symbolList st'"
    by (simp add: q backtest_body_def)
  fix k
  show "weights q k
          = (if k = ''__proto__'' then None
             else map_of (rev (zip (symbolList st') (weightList st'))) k)"
    using weightsObj_lookup [OF len, of k] by (simp add: q backtest_body_def)
qed

theorem handleRunBacktest_weight_sum_checked_witness:
  "js_gt (js_abs (js_sub (weightSum far_from_one) (Num 1))) (number_value (1 / 100))
   \<and> weightSum far_from_one = Num (3 / 4) \<and> 1 / 100 + 1 / 10 ^ 17 < \<bar>3 / 4 - 1 :: real\<bar>
   \<and> symbolList far_from_one \<noteq> []
   \<and> length (symbolList far_from_one) = length (weightList far_from_one)
   \<and> handleRunBacktest (accepting ()) far_from_one
       = (far_from_one, [Toast_error ''Weights must sum to 1.0''])
   \<and> Post ''/backtest'' (backtest_body near_one)
        \<in> set (snd (handleRunBacktest (accepting ()) near_one))
   \<and> weightSum near_one = Num (255 / 256)
   \<and> \<bar>255 / 256 - 1 :: real\<bar> \<le> 1 / 100 + 1 / 10 ^ 17
   \<and> symbols (backtest_body near_one) = [''A'', ''B'']
   \<and> weights (backtest_body near_one) ''B'' = Some (Num (127 / 256))"
  using handleRunBacktest_weight_sum_checked
    [where st = far_from_one and s = "3 / 4" and backend = "accepting ()"
       and url = "''/backtest''" and q = "backtest_body near_one" and st' = near_one]
  by (simp add: far_from_one_rejected far_from_one_lists far_from_one_sum far_from_one_guard
        near_one_submitted near_one_lists near_one_sum near_one_weights)

section \<open>The best model of a training task\<close>

lemma preferred_irrefl: "\<not> preferred a a"
  by (simp add: preferred_def)

lemma preferred_trans: "preferred a b \<Longrightarrow> preferred b c \<Longrightarrow> preferred a c"
  unfolding preferred_def by (auto dest: order.strict_trans)

lemma not_preferred_trans: "\<not> preferred a b \<Longrightarrow> \<not> preferred b c \<Longrightarrow> \<not> preferred a c"
  unfolding preferred_def by (auto simp: not_less dest: order.trans)

lemma not_preferred_iff:
  "\<not> preferred m b \<longleftrightarrow>
     (test_r2 (snd m) \<le> test_r2 (snd b)
      \<and> (test_r2 (snd m) = test_r2 (snd b)
          \<longrightarrow> test_mse (snd b) \<le> test_mse (snd m)
              \<and> (test_mse (snd m) = test_mse (snd b) \<longrightarrow> fst b \<le> fst m)))"
  unfolding preferred_def by auto

lemma preferred_total: "fst a \<noteq> fst b \<Longrightarrow> preferred a b \<or> preferred b a"
  unfolding preferred_def by auto

lemma keep_preferred_mem:
  "foldl (\<lambda>best x. if preferred x best then x else best) m ms \<in> set (m # ms)"
  by (induction ms arbitrary: m) auto

lemma keep_preferred_max:
  "x \<in> set (m # ms)
     \<Longrightarrow> \<not> preferred x (foldl (\<lambda>best x. if preferred x best then x else best) m ms)"
proof (induction ms arbitrary: m x)
  case Nil
  then show ?case by (simp add: preferred_irrefl)
next
  case (Cons a ms)
  let ?m' = "if preferred a m then a else m"
  have step: "foldl (\<lambda>best x. if preferred x best then x else best) m (a # ms)
        = foldl (\<lambda>best x. if preferred x best then x else best) ?m' ms"
    by simp
  have top: "\<not> preferred ?m' (foldl (\<lambda>best x. if preferred x best then x else best) ?m' ms)"
    using Cons.IH [of ?m' ?m'] by simp
  consider "x = m" | "x = a" | "x \<in> set ms"
    using Cons.prems by auto
  then show ?case
  proof cases
    case 1
    have "\<not> preferred m ?m'"
      by (auto simp: preferred_irrefl dest: preferred_trans)
    then show ?thesis
      unfolding step 1 using top not_preferred_trans by blast
  next
    case 2
    have "\<not> preferred a ?m'"
      by (auto simp: preferred_irrefl)
    then show ?thesis
      unfolding step 2 using top not_preferred_trans by blast
  next
    case 3
    then show ?thesis
      unfolding step using Cons.IH [of x ?m'] by simp
  qed
qed

lemma best_model_Some:
  assumes "rs \<noteq> []"
  obtains b where "best_model rs = Some b" "b \<in> set rs" "\<forall>m \<in> set rs. \<not> preferred m b"
proof (cases rs)
  case Nil
  with assms show ?thesis by simp
next
  case (Cons m ms)
  let ?b = "foldl (\<lambda>best x. if preferred x best then x else best) m ms"
  have "best_model rs = Some ?b" using Cons by simp
  moreover have "?b \<in> set rs" using Cons keep_preferred_mem [of m ms] by simp
  moreover have "\<forall>x \<in> set rs. \<not> preferred x ?b" using Cons keep_preferred_max [of _ m ms] by simp
  ultimately show ?thesis using that by blast
qed

lemma train_panel_names:
  "train_panel panel d = Inr rs \<Longrightarrow> map fst rs = map fst panel"
proof (induction panel arbitrary: rs)
  case Nil
  then show ?case by simp
next
  case (Cons p panel)
  obtain model trainer where p: "p = (model, trainer)" by (cases p)
  from Cons.prems p obtain m rs' where
    "trainer d = Inr m" "train_panel panel d = Inr rs'" "rs = (model, m) # rs'"
    by (auto split: sum.splits)
  then show ?case using Cons.IH [of rs'] p by simp
qed

lemma train_panel_total:
  "\<forall>p \<in> set panel. \<exists>m. snd p d = Inr m \<Longrightarrow> \<exists>rs. train_panel panel d = Inr rs"
proof (induction panel)
  case Nil
  then show ?case by simp
next
  case (Cons p panel)
  obtain model trainer where p: "p = (model, trainer)" by (cases p)
  from Cons.prems p obtain m where m: "trainer d = Inr m" by auto
  from Cons obtain rs where "train_panel panel d = Inr rs" by auto
  with m p show ?case by simp
qed

lemma example_task:
  "train_task example_panel ()
     = Completed example_results
         (Some (''lasso'', \<lparr>test_r2 = 4 / 5, test_mse = 1 / 100, test_mae = 1 / 5\<rparr>))"
  by (simp add: train_task_def example_panel_def example_results_def preferred_def)

text \<open>
  C6. When a training task completes with at least one trained model, its best model is
  one of the trained models, no trained model has a higher test R2, among those with the
  same test R2 none has a lower test MSE, and among those with the same test R2 and test
  MSE none has a name that comes earlier in lexicographic order; as model names are
  distinct, the best model beats every other trained model in this order. A task whose
  panel is not empty and whose trainers all succeed completes with a best model.
\<close>

theorem best_model_is_argmax:
  "(train_task panel d = Completed rs best \<and> rs \<noteq> [] \<longrightarrow>
      (\<exists>b. best = Some b \<and> b \<in> set rs
         \<and> (\<forall>m \<in> set rs.
               test_r2 (snd m) \<le> test_r2 (snd b)
               \<and> (test_r2 (snd m) = test_r2 (snd b)
                   \<longrightarrow> test_mse (snd b) \<le> test_mse (snd m)
                       \<and> (test_mse (snd m) = test_mse (snd b) \<longrightarrow> fst b \<le> fst m)))
         \<and> (distinct (map fst rs) \<longrightarrow>
               (\<forall>m \<in> set rs. m \<noteq> b \<longrightarrow>
                  test_r2 (snd m) < test_r2 (snd b)
                  \<or> (test_r2 (snd m) = test_r2 (snd b)
                      \<and> (test_mse (snd b) < test_mse (snd m)
                          \<or> (test_mse (snd m) = test_mse (snd b) \<and> fst b < fst m)))))))
   \<and> (panel' \<noteq> [] \<and> (\<forall>p \<in> set panel'. \<exists>m. snd p d' = Inr m) \<longrightarrow>
        (\<exists>rs' b'. train_task panel' d' = Completed rs' (Some b')
                   \<and> map fst rs' = map fst panel'))"
proof (intro conjI impI)
  assume a: "train_task panel d = Completed rs best \<and> rs \<noteq> []"
  then have best: "best = best_model rs"
    by (auto simp: train_task_def split: sum.splits)
  from a obtain b where b: "best_model rs = Some b" "b \<in> set rs" "\<forall>m \<in> set rs. \<not> preferred m b"
    using best_model_Some by blast
  have max: "\<forall>m \<in> set rs.
               test_r2 (snd m) \<le> test_r2 (snd b)
               \<and> (test_r2 (snd m) = test_r2 (snd b)
                   \<longrightarrow> test_mse (snd b) \<le> test_mse (snd m)
                       \<and> (test_mse (snd m) = test_mse (snd b) \<longrightarrow> fst b \<le> fst m))"
  proof
    fix m
    assume "m \<in> set rs"
    then have "\<not> preferred m b" using b(3) by blast
    then show "test_r2 (snd m) \<le> test_r2 (snd b)
               \<and> (test_r2 (snd m) = test_r2 (snd b)
                   \<longrightarrow> test_mse (snd b) \<le> test_mse (snd m)
                       \<and> (test_mse (snd m) = test_mse (snd b) \<longrightarrow> fst b \<le> fst m))"
      by (simp add: not_preferred_iff)
  qed
  have strict: "distinct (map fst rs) \<longrightarrow>
               (\<forall>m \<in> set rs. m \<noteq> b \<longrightarrow>
                  test_r2 (snd m) < test_r2 (snd b)
                  \<or> (test_r2 (snd m) = test_r2 (snd b)
                      \<and> (test_mse (snd b) < test_mse (snd m)
                          \<or> (test_mse (snd m) = test_mse (snd b) \<and> fst b < fst m))))"
  proof (intro impI ballI)
    fix m
    assume d: "distinct (map fst rs)" and m: "m \<in> set rs" "m \<noteq> b"
    have "fst m \<noteq> fst b"
      using d m b(2) by (meson distinct_map inj_onD)
    then have "preferred b m"
      using preferred_total [of m b] b(3) m(1) by blast
    then show "test_r2 (snd m) < test_r2 (snd b)
                  \<or> (test_r2 (snd m) = test_r2 (snd b)
                      \<and> (test_mse (snd b) < test_mse (snd m)
                          \<or> (test_mse (snd m) = test_mse (snd b) \<and> fst b < fst m)))"
      unfolding preferred_def by auto
  qed
  show "\<exists>b. best = Some b \<and> b \<in> set rs
         \<and> (\<forall>m \<in> set rs.
               test_r2 (snd m) \<le> test_r2 (snd b)
               \<and> (test_r2 (snd m) = test_r2 (snd b)
                   \<longrightarrow> test_mse (snd b) \<le> test_mse (snd m)
                       \<and> (test_mse (snd m) = test_mse (snd b) \<longrightarrow> fst b \<le> fst m)))
         \<and> (distinct (map fst rs) \<longrightarrow>
               (\<forall>m \<in> set rs. m \<noteq> b \<longrightarrow>
                  test_r2 (snd m) < test_r2 (snd b)
                  \<or> (test_r2 (snd m) = test_r2 (snd b)
                      \<and> (test_mse (snd b) < test_mse (snd m)
                          \<or> (test_mse (snd m) = test_mse (snd b) \<and> fst b < fst m)))))"
  proof (intro exI [of _ b] conjI)
    show "best = Some b" using best b(1) by simp
    show "b \<in> set rs" by (rule b(2))
  qed (rule max, rule strict)
next
  assume a: "panel' \<noteq> [] \<and> (\<forall>p \<in> set panel'. \<exists>m. snd p d' = Inr m)"
  then have "\<exists>rs. train_panel panel' d' = Inr rs"
    by (intro train_panel_total) simp
  then obtain rs' where rs': "train_panel panel' d' = Inr rs'" ..
  then have names: "map fst rs' = map fst panel'"
    by (rule train_panel_names)
  with a have "rs' \<noteq> []" by auto
  then obtain b' where "best_model rs' = Some b'"
    using best_model_Some by blast
  with rs' names show "\<exists>rs' b'. train_task panel' d' = Completed rs' (Some b')
                   \<and> map fst rs' = map fst panel'"
    by (simp add: train_task_def)
qed

theorem best_model_is_argmax_witness:
  "train_task example_panel () = Completed example_results
      (Some (''lasso'', \<lparr>test_r2 = 4 / 5, test_mse = 1 / 100, test_mae = 1 / 5\<rparr>))
   \<and> example_results \<noteq> [] \<and> example_panel \<noteq> []
   \<and> distinct (map fst example_results)
   \<and> (''lasso'', \<lparr>test_r2 = 4 / 5, test_mse = 1 / 100, test_mae = 1 / 5\<rparr>) \<in> set example_results
   \<and> map fst example_results = map fst example_panel
   \<and> (''linear'', \<lparr>test_r2 = 4 / 5, test_mse = 1 / 100, test_mae = 1 / 10\<rparr>) \<in> set example_results
   \<and> ''lasso'' < ''linear''"
proof -
  have ne: "example_results \<noteq> []" "example_panel \<noteq> []"
    by (simp_all add: example_results_def example_panel_def)
  have names: "distinct (map fst example_results)" "map fst example_results = map fst example_panel"
    by (simp_all add: example_results_def example_panel_def)
  have mem: "(''lasso'', \<lparr>test_r2 = 4 / 5, test_mse = 1 / 100, test_mae = 1 / 5\<rparr>) \<in> set example_results"
    "(''linear'', \<lparr>test_r2 = 4 / 5, test_mse = 1 / 100, test_mae = 1 / 10\<rparr>) \<in> set example_results"
    by (simp_all add: example_results_def)
  have succeed: "\<forall>p \<in> set example_panel. \<exists>m. snd p () = Inr m"
    by (simp add: example_panel_def)
  have "\<exists>rs' b'. train_task example_panel () = Completed rs' (Some b')
          \<and> map fst rs' = map fst example_panel"
    using best_model_is_argmax
      [where panel = example_panel and d = "()" and rs = example_results
         and best = "Some (''lasso'', \<lparr>test_r2 = 4 / 5, test_mse = 1 / 100, test_mae = 1 / 5\<rparr>)"
         and panel' = example_panel and d' = "()", THEN conjunct2]
      ne(2) succeed by (rule mp [OF _ conjI])
  then show ?thesis
    using example_task ne names mem by simp
qed

section \<open>Recommendations of the analysis engine\<close>

lemma analyze_Inr:
  assumes "analyze optimize currentWeights = Inr recs"
  obtains optimal where "optimize (map fst currentWeights) = Inr optimal"
    and "recs = map (\<lambda>(s, w). recommend s w (optimal s)) currentWeights"
    and "2 \<le> length currentWeights"
  using assms by (auto simp: analyze_def split: if_splits sum.splits)

lemma recommend_fields:
  "rec_symbol (recommend s c w) = s \<and> current_weight (recommend s c w) = c
   \<and> optimal_weight (recommend s c w) = w \<and> difference (recommend s c w) = \<bar>w - c\<bar>
   \<and> action (recommend s c w) = (if w > c then ''increase'' else ''decrease'')"
  by (simp add: recommend_def)

lemma example_recommendations:
  "analyze example_optimize example_holdings
     = Inr [\<lparr>rec_symbol = ''AAPL'', action = ''increase'', current_weight = 1 / 2,
              optimal_weight = 5 / 8, difference = 1 / 8\<rparr>,
            \<lparr>rec_symbol = ''MSFT'', action = ''decrease'', current_weight = 1 / 2,
              optimal_weight = 3 / 8, difference = 1 / 8\<rparr>]"
  by (simp add: analyze_def example_optimize_def example_optimal_def example_holdings_def
        recommend_def)

text \<open>
  The portfolio page paints the badge of a recommendation green only for the action
  \<^verbatim>\<open>Increase\<close>, with a capital letter, so a recommendation with the action
  \<^verbatim>\<open>increase\<close> gets the amber badge.
\<close>

lemma recommend_badge: "recommendation_badge (recommend s c w) = Amber"
  by (simp add: recommendation_badge_def recommend_def)

text \<open>
  C5. When \<open>analyze\<close> succeeds there is one recommendation for each holding, in the
  order of the holdings. The recommendation of a holding carries its symbol, its current
  weight and the optimal weight that the optimizer gave the symbol; its action is
  \<^verbatim>\<open>increase\<close> when that optimal weight is greater than the current weight of the
  holding and \<^verbatim>\<open>decrease\<close> otherwise, and its difference is exactly the absolute value
  of optimal weight minus current weight. So in every recommendation emitted the action
  and the difference agree in this way with the two weights the recommendation carries.
  With at least two holdings and an optimizer that succeeds, \<open>analyze\<close> succeeds.
\<close>

theorem recommendation_action_and_difference:
  "(analyze optimize currentWeights = Inr recs
      \<and> optimize (map fst currentWeights) = Inr optimal \<longrightarrow>
        length recs = length currentWeights
        \<and> (\<forall>i < length currentWeights.
              rec_symbol (recs ! i) = fst (currentWeights ! i)
              \<and> current_weight (recs ! i) = snd (currentWeights ! i)
              \<and> optimal_weight (recs ! i) = optimal (fst (currentWeights ! i))
              \<and> (optimal (fst (currentWeights ! i)) > snd (currentWeights ! i)
                   \<longrightarrow> action (recs ! i) = ''increase'')
              \<and> (\<not> optimal (fst (currentWeights ! i)) > snd (currentWeights ! i)
                   \<longrightarrow> action (recs ! i) = ''decrease'')
              \<and> difference (recs ! i)
                  = \<bar>optimal (fst (currentWeights ! i)) - snd (currentWeights ! i)\<bar>))
   \<and> (analyze optimize currentWeights = Inr recs \<and> r \<in> set recs \<longrightarrow>
        (optimal_weight r > current_weight r \<longrightarrow> action r = ''increase'')
        \<and> (\<not> optimal_weight r > current_weight r \<longrightarrow> action r = ''decrease'')
        \<and> difference r = \<bar>optimal_weight r - current_weight r\<bar>)
   \<and> (2 \<le> length holdings \<and> optimize' (map fst holdings) = Inr optimal' \<longrightarrow>
        (\<exists>recs'. analyze optimize' holdings = Inr recs'
                  \<and> map rec_symbol recs' = map fst holdings))"
proof (intro conjI impI allI)
  assume a: "analyze optimize currentWeights = Inr recs
      \<and> optimize (map fst currentWeights) = Inr optimal"
  then obtain optimal0 where "optimize (map fst currentWeights) = Inr optimal0"
    and "recs = map (\<lambda>(s, w). recommend s w (optimal0 s)) currentWeights"
    using analyze_Inr by blast
  with a have recs: "recs = map (\<lambda>(s, w). recommend s w (optimal s)) currentWeights"
    by simp
  show "length recs = length currentWeights"
    by (simp add: recs)
  fix i
  assume i: "i < length currentWeights"
  obtain s c where sc: "currentWeights ! i = (s, c)"
    by (cases "currentWeights ! i")
  have r: "recs ! i = recommend s c (optimal s)"
    using i sc by (simp add: recs)
  show "rec_symbol (recs ! i) = fst (currentWeights ! i)"
    "current_weight (recs ! i) = snd (currentWeights ! i)"
    "optimal_weight (recs ! i) = optimal (fst (currentWeights ! i))"
    "difference (recs ! i) = \<bar>optimal (fst (currentWeights ! i)) - snd (currentWeights ! i)\<bar>"
    by (simp_all add: r sc recommend_fields)
  {
    assume "optimal (fst (currentWeights ! i)) > snd (currentWeights ! i)"
    then show "action (recs ! i) = ''increase''"
      by (simp add: r sc recommend_fields)
  }
  {
    assume "\<not> optimal (fst (currentWeights ! i)) > snd (currentWeights ! i)"
    then show "action (recs ! i) = ''decrease''"
      by (simp add: r sc recommend_fields)
  }
next
  assume a: "analyze optimize currentWeights = Inr recs \<and> r \<in> set recs"
  then obtain optimal0 where "recs = map (\<lambda>(s, w). recommend s w (optimal0 s)) currentWeights"
    using analyze_Inr by blast
  with a obtain s c where r: "r = recommend s c (optimal0 s)"
    by auto
  show "difference r = \<bar>optimal_weight r - current_weight r\<bar>"
    by (simp add: r recommend_fields)
  {
    assume "optimal_weight r > current_weight r"
    then show "action r = ''increase''"
      by (simp add: r recommend_fields)
  }
  {
    assume "\<not> optimal_weight r > current_weight r"
    then show "action r = ''decrease''"
      by (simp add: r recommend_fields)
  }
next
  assume a: "2 \<le> length holdings \<and> optimize' (map fst holdings) = Inr optimal'"
  have "map rec_symbol (map (\<lambda>(s, w). recommend s w (optimal' s)) holdings) = map fst holdings"
    by (induction holdings) (auto simp: recommend_def)
  with a show "\<exists>recs'. analyze optimize' holdings = Inr recs'
                  \<and> map rec_symbol recs' = map fst holdings"
    by (simp add: analyze_def)
qed

theorem recommendation_action_and_difference_witness:
  "analyze example_optimize example_holdings
     = Inr [\<lparr>rec_symbol = ''AAPL'', action = ''increase'', current_weight = 1 / 2,
              optimal_weight = 5 / 8, difference = 1 / 8\<rparr>,
            \<lparr>rec_symbol = ''MSFT'', action = ''decrease'', current_weight = 1 / 2,
              optimal_weight = 3 / 8, difference = 1 / 8\<rparr>]
   \<and> example_optimize (map fst example_holdings) = Inr example_optimal
   \<and> example_holdings ! 0 = (''AAPL'', 1 / 2) \<and> example_optimal ''AAPL'' = 5 / 8
   \<and> example_holdings ! 1 = (''MSFT'', 1 / 2) \<and> example_optimal ''MSFT'' = 3 / 8
   \<and> (5 / 8 :: real) > 1 / 2 \<and> \<not> (3 / 8 :: real) > 1 / 2
   \<and> \<bar>5 / 8 - 1 / 2 :: real\<bar> = 1 / 8 \<and> \<bar>3 / 8 - 1 / 2 :: real\<bar> = 1 / 8
   \<and> length example_holdings = 2"
  using recommendation_action_and_difference
    [where optimize = example_optimize and currentWeights = example_holdings
       and optimal = example_optimal
       and recs = "[\<lparr>rec_symbol = ''AAPL'', action = ''increase'', current_weight = 1 / 2,
                      optimal_weight = 5 / 8, difference = 1 / 8\<rparr>,
                    \<lparr>rec_symbol = ''MSFT'', action = ''decrease'', current_weight = 1 / 2,
                      optimal_weight = 3 / 8, difference = 1 / 8\<rparr>]"
       and r = "\<lparr>rec_symbol = ''AAPL'', action = ''increase'', current_weight = 1 / 2,
                  optimal_weight = 5 / 8, difference = 1 / 8\<rparr>"
       and holdings = example_holdings and optimize' = example_optimize
       and optimal' = example_optimal]
  by (simp add: example_recommendations)
    (simp add: example_holdings_def example_optimize_def example_optimal_def)

section \<open>Percentages on the portfolio page\<close>


section \<open>The value series of a backtest\<close>

lemma length_value_path: "length (value_path rebalance target t v w rows) = length rows"
  by (induction rows arbitrary: t v w) (simp_all add: Let_def)

lemma returns_matrix_Inr:
  assumes "returns_matrix dateRange series = Inr m"
  shows "length m = length (aligned_dates dateRange (map snd series)) - 1
         \<and> 2 \<le> length (aligned_dates dateRange (map snd series))"
  using assms by (auto simp: returns_matrix_def Let_def split: if_splits)

lemma returns_matrix_total:
  "2 \<le> length (aligned_dates dateRange (map snd series))
     \<Longrightarrow> \<exists>m. returns_matrix dateRange series = Inr m"
  by (simp add: returns_matrix_def Let_def)

lemma returns_matrix_short:
  "length (aligned_dates dateRange (map snd series)) < 2
     \<Longrightarrow> returns_matrix dateRange series = Inl InsufficientData"
  by (simp add: returns_matrix_def Let_def)

lemma example_index:
  "aligned_dates (1, 4) (map snd example_series) = [1, 2, 4]
   \<and> aligned_dates (3, 4) (map snd example_series) = [4]"
  by (simp add: aligned_dates_def example_series_def)

lemma example_backtest:
  "backtest [(''A'', 1 / 2), (''B'', 1 / 2)] example_series (\<lambda>t. True) (1, 4)
     = Inr \<lparr>cumulative_returns = [(1, 1), (2, 21 / 20), (4, 21 / 20)], total_return = 1 / 20\<rparr>"
  by (simp add: backtest_def returns_matrix_def example_index Let_def)
    (simp add: example_series_def simple_return_def weight_of_def Let_def)

text \<open>
  C4. For every backtest that succeeds, the cumulative value series starts with the value
  1, has one entry for each date of the aligned index of the requested range, and carries
  the dates of that index in order. A backtest succeeds when the aligned index has at
  least two dates, and fails with \<open>InsufficientData\<close> otherwise.
\<close>

theorem backtest_value_series:
  "(backtest ws series rebalance dateRange = Inr res \<longrightarrow>
      (\<exists>d0 rest. cumulative_returns res = (d0, 1) # rest)
      \<and> length (cumulative_returns res) = length (aligned_dates dateRange (map snd series))
      \<and> map fst (cumulative_returns res) = aligned_dates dateRange (map snd series))
   \<and> (2 \<le> length (aligned_dates dateRange' (map snd series')) \<longrightarrow>
        (\<exists>res'. backtest ws' series' rebalance' dateRange' = Inr res'))
   \<and> (length (aligned_dates dateRange'' (map snd series'')) < 2 \<longrightarrow>
        backtest ws'' series'' rebalance'' dateRange'' = Inl InsufficientData)"
proof (intro conjI impI)
  assume a: "backtest ws series rebalance dateRange = Inr res"
  define ds where "ds = aligned_dates dateRange (map snd series)"
  define target where "target = map (\<lambda>(s, p). weight_of ws s) series"
  from a obtain m where m: "returns_matrix dateRange series = Inr m"
    by (auto simp: backtest_def split: sum.splits)
  define vs where "vs = 1 # value_path rebalance target 0 1 target (map snd m)"
  have res: "cumulative_returns res = zip ds vs"
    using a m by (auto simp: backtest_def Let_def ds_def target_def vs_def)
  have len_m: "length m = length ds - 1" and two: "2 \<le> length ds"
    using returns_matrix_Inr [OF m] by (simp_all add: ds_def)
  have len_vs: "length vs = length ds"
    using len_m two by (simp add: vs_def length_value_path)
  obtain d0 ds' where ds: "ds = d0 # ds'"
    using two by (cases ds) auto
  show "\<exists>d0 rest. cumulative_returns res = (d0, 1) # rest"
    unfolding res ds by (simp add: vs_def)
  show "length (cumulative_returns res) = length (aligned_dates dateRange (map snd series))"
    unfolding res using len_vs by (simp add: ds_def)
  show "map fst (cumulative_returns res) = aligned_dates dateRange (map snd series)"
    unfolding res using len_vs by (simp add: ds_def)
next
  assume "2 \<le> length (aligned_dates dateRange' (map snd series'))"
  then obtain m where "returns_matrix dateRange' series' = Inr m"
    using returns_matrix_total by blast
  then show "\<exists>res'. backtest ws' series' rebalance' dateRange' = Inr res'"
    by (simp add: backtest_def Let_def)
next
  assume "length (aligned_dates dateRange'' (map snd series'')) < 2"
  then have "returns_matrix dateRange'' series'' = Inl InsufficientData"
    by (rule returns_matrix_short)
  then show "backtest ws'' series'' rebalance'' dateRange'' = Inl InsufficientData"
    by (simp add: backtest_def)
qed

theorem backtest_value_series_witness:
  "backtest [(''A'', 1 / 2), (''B'', 1 / 2)] example_series (\<lambda>t. True) (1, 4)
     = Inr \<lparr>cumulative_returns = [(1, 1), (2, 21 / 20), (4, 21 / 20)], total_return = 1 / 20\<rparr>
   \<and> aligned_dates (1, 4) (map snd example_series) = [1, 2, 4]
   \<and> 2 \<le> length (aligned_dates (1, 4) (map snd example_series))
   \<and> length (aligned_dates (3, 4) (map snd example_series)) < 2
   \<and> backtest [(''A'', 1 / 2), (''B'', 1 / 2)] example_series (\<lambda>t. True) (3, 4)
       = Inl InsufficientData"
  using backtest_value_series
    [where ws = "[(''A'', 1 / 2), (''B'', 1 / 2)]" and series = example_series
       and rebalance = "\<lambda>t. True" and dateRange = "(1, 4)"
       and res = "\<lparr>cumulative_returns = [(1, 1), (2, 21 / 20), (4, 21 / 20)],
                    total_return = 1 / 20\<rparr>"
       and series' = example_series and dateRange' = "(1, 4)"
       and ws' = "[(''A'', 1 / 2), (''B'', 1 / 2)]" and rebalance' = "\<lambda>t. True"
       and series'' = example_series and dateRange'' = "(3, 4)"
       and ws'' = "[(''A'', 1 / 2), (''B'', 1 / 2)]" and rebalance'' = "\<lambda>t. True"]
  by (simp add: example_backtest example_index)

end
